theory Spec2Isabelle
  imports Complex_Main "HOL-Library.Multiset" "HOL-Library.Char_ord" "HOL-Library.List_Lexorder"
begin

section \<open>Tabular data\<close>

text \<open>
  The engine works on pandas data frames. A frame is modelled row-wise: the ordered list of
  its columns (name and storage type) and the list of its rows, each row holding one cell per
  column. A cell is a number, a text, a null (\<open>None\<close>/\<open>NaN\<close>) or a pair of cells (the
  tuples built by \<open>zip\<close>). Numbers are the rationals
  they denote; binary rounding of floats is not modelled. Exceptions of the source are
  values of type \<open>error\<close>, and a function that may raise returns \<open>error + 'a\<close>.
\<close>

datatype error = KeyError | ValueError | TypeError | AttributeError | IndexError

datatype cell = Num rat | Str string | NA | Tuple cell cell

datatype dtype = Numeric | Object

record dataframe =
  columns :: "(string \<times> dtype) list"
  rows :: "cell list list"

definition column_names :: "dataframe \<Rightarrow> string list" where
  "column_names df = map fst (columns df)"

fun index_of :: "'a \<Rightarrow> 'a list \<Rightarrow> nat option" where
  "index_of x [] = None"
| "index_of x (y # ys) = (if x = y then Some 0 else map_option Suc (index_of x ys))"

text \<open>Reading a cell by position; a row always has one cell per column, a shorter row reads as null.\<close>

definition nth_cell :: "cell list \<Rightarrow> nat \<Rightarrow> cell" where
  "nth_cell r i = (if i < length r then r ! i else NA)"

fun get_locs :: "string list \<Rightarrow> string list \<Rightarrow> nat list option" where
  "get_locs names [] = Some []"
| "get_locs names (k # ks) =
     (case index_of k names of
        None \<Rightarrow> None
      | Some i \<Rightarrow> (case get_locs names ks of None \<Rightarrow> None | Some js \<Rightarrow> Some (i # js)))"

fun drop_locs_from :: "nat \<Rightarrow> nat list \<Rightarrow> 'a list \<Rightarrow> 'a list" where
  "drop_locs_from i locs [] = []"
| "drop_locs_from i locs (x # xs) =
     (if i \<in> set locs then drop_locs_from (Suc i) locs xs
      else x # drop_locs_from (Suc i) locs xs)"

section \<open>Filtering by match keys\<close>

text \<open>
  \<open>DataFrame.set_index(keys)\<close> moves the key columns out of the frame into its index: every
  row gets the tuple of its key cells as label. It raises for an empty key list
  (no levels) and for a key that is not a column (KeyError). A key may be listed twice:
  the index then has two levels of the same name.
  An indexed frame is the key columns, the remaining columns and, per row, the key tuple
  and the remaining cells.
\<close>

type_synonym indexed_frame =
  "(string \<times> dtype) list \<times> (string \<times> dtype) list \<times> (cell list \<times> cell list) list"

definition set_index :: "dataframe \<Rightarrow> string list \<Rightarrow> error + indexed_frame" where
  "set_index df keys =
     (if keys = [] then Inl ValueError
      else case get_locs (column_names df) keys of
        None \<Rightarrow> Inl KeyError
      | Some locs \<Rightarrow>
          Inr (map (\<lambda>i. columns df ! i) locs,
               drop_locs_from 0 locs (columns df),
               map (\<lambda>r. (map (nth_cell r) locs, drop_locs_from 0 locs r)) (rows df)))"

text \<open>
  \<open>reset_index()\<close> puts the index levels back as the first columns of the frame. It
  cannot insert the same name twice (ValueError), so it fails on an index built from a
  key list with a repeated key.
\<close>

definition reset_index :: "indexed_frame \<Rightarrow> error + dataframe" where
  "reset_index fr =
     (case fr of (kcols, rcols, rs) \<Rightarrow>
        if distinct (map fst kcols)
        then Inr \<lparr>columns = kcols @ rcols, rows = map (\<lambda>(k, r). k @ r) rs\<rparr>
        else Inl ValueError)"

text \<open>
  \<open>index.isin(values)\<close> for an index of \<open>n\<close> levels and the labels of an index of \<open>m\<close>
  levels. An index of one level is a plain index: it compares its labels with the values,
  and a label never equals a tuple of several cells. An index of several levels is a
  \<open>MultiIndex\<close>: its \<open>isin\<close> rebuilds the values as tuples of its own number of levels and
  raises when they have another number of levels (TypeError when the values are the
  labels of a plain index; the model gives TypeError also when they are tuples of another
  length, where the class of the exception depends on the version of pandas); without
  any value nothing is rebuilt and no label is marked. Labels are compared as values
  (a null equals a null).
\<close>

definition index_isin :: "nat \<Rightarrow> cell list list \<Rightarrow> nat \<Rightarrow> cell list list \<Rightarrow> error + bool list" where
  "index_isin n labels m vals =
     (if 2 \<le> n \<and> n \<noteq> m \<and> vals \<noteq> [] then Inl TypeError
      else Inr (map (\<lambda>k. k \<in> set vals) labels))"

text \<open>
  \<open>filter_dataset_by_match_keys_of_other_dataset\<close>: both frames are indexed by their match
  keys, \<open>index.isin\<close> marks the rows of the dataset whose key tuple occurs among the key
  tuples of the other dataset, the marked rows are kept in their order and the index of
  the dataset is reset. The index of the other dataset is only read.
\<close>

definition filter_dataset_by_match_keys_of_other_dataset ::
  "dataframe \<Rightarrow> string list \<Rightarrow> dataframe \<Rightarrow> string list \<Rightarrow> error + dataframe" where
  "filter_dataset_by_match_keys_of_other_dataset dataset dataset_match_keys
       other_dataset other_dataset_match_keys =
     (case set_index dataset dataset_match_keys of
        Inl e \<Rightarrow> Inl e
      | Inr (kcols, rcols, rs) \<Rightarrow>
          (case set_index other_dataset other_dataset_match_keys of
             Inl e \<Rightarrow> Inl e
           | Inr (okcols, orcols, ors) \<Rightarrow>
               (case index_isin (length dataset_match_keys) (map fst rs)
                       (length other_dataset_match_keys) (map fst ors) of
                  Inl e \<Rightarrow> Inl e
                | Inr condition \<Rightarrow>
                    reset_index (kcols, rcols, map fst (filter snd (zip rs condition))))))"

section \<open>Sequencing of calls that may raise\<close>

fun collect :: "('e + 'a) list \<Rightarrow> 'e + 'a list" where
  "collect [] = Inr []"
| "collect (x # xs) =
     (case x of
        Inl e \<Rightarrow> Inl e
      | Inr v \<Rightarrow> (case collect xs of Inl e \<Rightarrow> Inl e | Inr vs \<Rightarrow> Inr (v # vs)))"

text \<open>\<open>df[name]\<close>: the storage type and the cells of a column, KeyError when it is absent.\<close>

definition get_column :: "dataframe \<Rightarrow> string \<Rightarrow> error + (dtype \<times> cell list)" where
  "get_column df name =
     (case index_of name (column_names df) of
        None \<Rightarrow> Inl KeyError
      | Some i \<Rightarrow> Inr (snd (columns df ! i), map (\<lambda>r. nth_cell r i) (rows df)))"

definition column_cells :: "dataframe \<Rightarrow> string \<Rightarrow> error + cell list" where
  "column_cells df name =
     (case get_column df name of Inl e \<Rightarrow> Inl e | Inr (t, cs) \<Rightarrow> Inr cs)"

text \<open>
  \<open>df[name] = values\<close>: an existing column is overwritten in place, a new one is appended
  as the last column. The values are one per row.
\<close>

definition set_column :: "dataframe \<Rightarrow> string \<Rightarrow> dtype \<Rightarrow> cell list \<Rightarrow> dataframe" where
  "set_column df name t vs =
     (case index_of name (column_names df) of
        None \<Rightarrow>
          \<lparr>columns = columns df @ [(name, t)],
           rows = map (\<lambda>(r, v). r @ [v]) (zip (rows df) vs)\<rparr>
      | Some i \<Rightarrow>
          \<lparr>columns = (columns df)[i := (name, t)],
           rows = map (\<lambda>(r, v). r[i := v]) (zip (rows df) vs)\<rparr>)"

section \<open>Conversion to float\<close>

text \<open>
  \<open>Series.astype(float)\<close> converts cell by cell: a number stays, a null becomes \<open>NaN\<close>
  (the null cell), a text goes through Python's \<open>float()\<close>, a tuple is rejected. Python's
  \<open>float()\<close> on texts is a parameter \<open>str_to_float\<close> of the model: it gives the float as a
  cell (\<open>Num r\<close>, or \<open>NA\<close> for \<open>nan\<close>), and \<open>None\<close> where \<open>float()\<close> raises ValueError.
\<close>

definition astype_float_cell :: "(string \<Rightarrow> cell option) \<Rightarrow> cell \<Rightarrow> error + cell" where
  "astype_float_cell str_to_float c =
     (case c of
        Num r \<Rightarrow> Inr (Num r)
      | NA \<Rightarrow> Inr NA
      | Str s \<Rightarrow> (case str_to_float s of None \<Rightarrow> Inl ValueError | Some v \<Rightarrow> Inr v)
      | Tuple a b \<Rightarrow> Inl TypeError)"

definition astype_float :: "(string \<Rightarrow> cell option) \<Rightarrow> cell list \<Rightarrow> error + cell list" where
  "astype_float str_to_float cs = collect (map (astype_float_cell str_to_float) cs)"

text \<open>
  The restriction of \<open>float()\<close> to unsigned plain decimal literals (digits with at most one
  decimal point and at least one digit), which is all the examples below use. The other
  forms \<open>float()\<close> accepts (sign, exponent, \<open>inf\<close>, \<open>nan\<close>, blanks, underscores) are outside
  this table; a text with two decimal points is rejected by \<open>float()\<close> itself.
\<close>

definition is_ascii_digit :: "char \<Rightarrow> bool" where
  "is_ascii_digit c = (c \<in> set ''0123456789'')"

definition digit_value :: "char \<Rightarrow> nat" where
  "digit_value c = the (index_of c ''0123456789'')"

definition digits_value :: "string \<Rightarrow> nat" where
  "digits_value s = foldl (\<lambda>n c. 10 * n + digit_value c) 0 s"

definition plain_decimal :: "string \<Rightarrow> cell option" where
  "plain_decimal s =
     (let ip = takeWhile (\<lambda>c. c \<noteq> CHR ''.'') s;
          fp = drop 1 (dropWhile (\<lambda>c. c \<noteq> CHR ''.'') s)
      in if ip @ fp \<noteq> [] \<and> list_all is_ascii_digit (ip @ fp)
         then Some (Num (of_nat (digits_value (ip @ fp)) / 10 ^ length fp))
         else None)"

section \<open>Sorting rows\<close>

text \<open>
  \<open>DataFrame.sort_values(by)\<close> orders the rows by the named columns, lexicographically,
  nulls last. Numbers are ordered by value and texts as Python orders strings; a column
  that mixes the two, or holds tuples next to other cells, cannot be compared (TypeError).
  The model is a stable insertion sort; pandas does not promise the order of rows that are
  equal on every sort column when there is a single sort column, and rows that tie there
  may come out in another order than here. With no column to sort by the frame is
  returned as it is.
\<close>

fun cell_less :: "cell \<Rightarrow> cell \<Rightarrow> bool" where
  "cell_less (Num a) (Num b) = (a < b)"
| "cell_less (Str a) (Str b) = (a < b)"
| "cell_less NA c = False"
| "cell_less c NA = True"
| "cell_less a b = False"

fun key_less :: "cell list \<Rightarrow> cell list \<Rightarrow> bool" where
  "key_less (a # as) (b # bs) = (cell_less a b \<or> (a = b \<and> key_less as bs))"
| "key_less as bs = False"

fun insert_row :: "nat list \<Rightarrow> cell list \<Rightarrow> cell list list \<Rightarrow> cell list list" where
  "insert_row locs x [] = [x]"
| "insert_row locs x (y # ys) =
     (if key_less (map (nth_cell x) locs) (map (nth_cell y) locs) then x # y # ys
      else y # insert_row locs x ys)"

definition sort_rows :: "nat list \<Rightarrow> cell list list \<Rightarrow> cell list list" where
  "sort_rows locs rs = foldl (\<lambda>acc x. insert_row locs x acc) [] rs"

fun cell_kind :: "cell \<Rightarrow> nat option" where
  "cell_kind (Num a) = Some 0"
| "cell_kind (Str a) = Some 1"
| "cell_kind NA = None"
| "cell_kind (Tuple a b) = Some 2"

definition comparable_cells :: "cell list \<Rightarrow> bool" where
  "comparable_cells cs =
     (Some 2 \<notin> set (map cell_kind cs) \<and>
      \<not> (Some 0 \<in> set (map cell_kind cs) \<and> Some 1 \<in> set (map cell_kind cs)))"

definition sort_values :: "dataframe \<Rightarrow> string list \<Rightarrow> error + dataframe" where
  "sort_values df by =
     (case get_locs (column_names df) by of
        None \<Rightarrow> Inl KeyError
      | Some locs \<Rightarrow>
          if list_all (\<lambda>i. comparable_cells (map (\<lambda>r. nth_cell r i) (rows df))) locs
          then Inr (df\<lparr>rows := sort_rows locs (rows df)\<rparr>)
          else Inl TypeError)"

section \<open>Filtering by nested columns\<close>

text \<open>
  \<open>filter_dataset_by_nested_columns_of_other_dataset\<close>. \<open>other_dataset.groupby(column_with_names)\<close>
  makes one group per distinct name, in sorted order; rows with a null name belong to no
  group. A name that is not a text cannot be a column label of the dataset (KeyError).
\<close>

definition group_names :: "cell list \<Rightarrow> error + string list" where
  "group_names cs =
     (if list_all (\<lambda>c. case c of Str s \<Rightarrow> True | NA \<Rightarrow> True | _ \<Rightarrow> False) cs
      then Inr (sort (remdups (concat (map (\<lambda>c. case c of Str s \<Rightarrow> [s] | _ \<Rightarrow> []) cs))))
      else Inl KeyError)"

text \<open>
  The inner function \<open>filter_dataset_by_group_values(group)\<close>: the values of the group and
  the values of the dataset column that the group names are both brought to
  \<open>astype(float).astype(str)\<close> and compared with \<open>isin\<close>. The text of a float determines
  the float, and \<open>nan\<close> is the text of every null, so the texts are compared by comparing
  the float cells. The rows returned are rows of \<open>dataset\<close>, the frame the enclosing
  function was called with.
\<close>

definition filter_dataset_by_group_values ::
  "(string \<Rightarrow> cell option) \<Rightarrow> dataframe \<Rightarrow> dataframe \<Rightarrow> string \<Rightarrow> string \<Rightarrow> string
     \<Rightarrow> error + cell list list" where
  "filter_dataset_by_group_values str_to_float dataset other_dataset column_with_names
       column_with_values name =
     (case column_cells
             (other_dataset\<lparr>rows :=
                filter (\<lambda>r. nth_cell r (the (index_of column_with_names (column_names other_dataset)))
                             = Str name) (rows other_dataset)\<rparr>)
             column_with_values of
        Inl e \<Rightarrow> Inl e
      | Inr group_values \<Rightarrow>
          (case astype_float str_to_float group_values of
             Inl e \<Rightarrow> Inl e
           | Inr decimal_group_values \<Rightarrow>
               (case column_cells dataset name of
                  Inl e \<Rightarrow> Inl e
                | Inr dataset_values \<Rightarrow>
                    (case astype_float str_to_float dataset_values of
                       Inl e \<Rightarrow> Inl e
                     | Inr decimal_dataset_values \<Rightarrow>
                         Inr (map fst (filter (\<lambda>(r, v). v \<in> set decimal_group_values)
                                         (zip (rows dataset) decimal_dataset_values)))))))"

text \<open>
  \<open>grouped.apply\<close> calls the inner function once per group and concatenates the frames it
  returns, in the order of the groups (\<open>group_keys=False\<close>: no group label is added).
  The concatenation is then sorted by the group names. Without any group the result of
  \<open>apply\<close> is an empty frame with the columns of the other dataset.
\<close>

definition filter_dataset_by_nested_columns_of_other_dataset ::
  "(string \<Rightarrow> cell option) \<Rightarrow> dataframe \<Rightarrow> dataframe \<Rightarrow> string \<Rightarrow> string \<Rightarrow> error + dataframe" where
  "filter_dataset_by_nested_columns_of_other_dataset str_to_float dataset other_dataset
       column_with_names column_with_values =
     (case column_cells other_dataset column_with_names of
        Inl e \<Rightarrow> Inl e
      | Inr name_cells \<Rightarrow>
          (case group_names name_cells of
             Inl e \<Rightarrow> Inl e
           | Inr names \<Rightarrow>
               if names = [] then Inr (other_dataset\<lparr>rows := []\<rparr>)
               else
                 (case collect (map (filter_dataset_by_group_values str_to_float dataset
                                       other_dataset column_with_names column_with_values) names) of
                    Inl e \<Rightarrow> Inl e
                  | Inr parts \<Rightarrow> sort_values (dataset\<lparr>rows := concat parts\<rparr>) names)))"

section \<open>Numeric columns and the merge on relationship columns\<close>

text \<open>
  \<open>str.replace(''.'', '''')\<close> drops every decimal point. Python's \<open>str.isdigit\<close> is a
  parameter of the model; on a text of ASCII characters it holds for a non-empty text of
  the digits 0 to 9, which is the table \<open>ascii_isdigit\<close>.
\<close>

definition ascii_isdigit :: "string \<Rightarrow> bool" where
  "ascii_isdigit s = (s \<noteq> [] \<and> list_all is_ascii_digit s)"

definition replace_dot :: "string \<Rightarrow> string" where
  "replace_dot s = filter (\<lambda>c. c \<noteq> CHR ''.'') s"

text \<open>
  \<open>column_contains_numeric\<close>. A column of numeric storage type is numeric. Otherwise the
  \<open>.str\<close> accessor is used: it refuses (AttributeError) an object column holding numbers
  and no text at all, and gives a null for every cell that is not a text; \<open>all()\<close> skips
  nulls, so only the texts of the column are tested.
\<close>

definition column_contains_numeric :: "(string \<Rightarrow> bool) \<Rightarrow> dtype \<times> cell list \<Rightarrow> error + bool" where
  "column_contains_numeric isdigit column =
     (case column of (t, cs) \<Rightarrow>
        if t = Numeric then Inr True
        else if Some 1 \<notin> set (map cell_kind cs) \<and> Some 0 \<in> set (map cell_kind cs)
        then Inl AttributeError
        else Inr (list_all (\<lambda>c. case c of Str s \<Rightarrow> isdigit (replace_dot s) | _ \<Rightarrow> True) cs))"

definition astype_float_column ::
  "(string \<Rightarrow> cell option) \<Rightarrow> dataframe \<Rightarrow> string \<Rightarrow> error + dataframe" where
  "astype_float_column str_to_float df name =
     (case column_cells df name of
        Inl e \<Rightarrow> Inl e
      | Inr cs \<Rightarrow>
          (case astype_float str_to_float cs of
             Inl e \<Rightarrow> Inl e
           | Inr vs \<Rightarrow> Inr (set_column df name Numeric vs)))"

text \<open>
  \<open>cast_numeric_cols_to_same_data_type\<close> changes its two frames in place; the model
  returns the pair (left, right) of frames after the call. The right column is converted
  first, then the left one.
\<close>

definition cast_numeric_cols_to_same_data_type ::
  "(string \<Rightarrow> bool) \<Rightarrow> (string \<Rightarrow> cell option) \<Rightarrow> dataframe \<Rightarrow> string \<Rightarrow> dataframe \<Rightarrow> string
     \<Rightarrow> error + (dataframe \<times> dataframe)" where
  "cast_numeric_cols_to_same_data_type isdigit str_to_float left_dataset left_dataset_column
       right_dataset right_dataset_column =
     (case get_column left_dataset left_dataset_column of
        Inl e \<Rightarrow> Inl e
      | Inr left_column \<Rightarrow>
     (case column_contains_numeric isdigit left_column of
        Inl e \<Rightarrow> Inl e
      | Inr left_is_numeric \<Rightarrow>
     (case get_column right_dataset right_dataset_column of
        Inl e \<Rightarrow> Inl e
      | Inr right_column \<Rightarrow>
     (case column_contains_numeric isdigit right_column of
        Inl e \<Rightarrow> Inl e
      | Inr right_is_numeric \<Rightarrow>
          if left_is_numeric \<and> right_is_numeric then
            (case astype_float_column str_to_float right_dataset right_dataset_column of
               Inl e \<Rightarrow> Inl e
             | Inr right_dataset' \<Rightarrow>
                 (case astype_float_column str_to_float left_dataset left_dataset_column of
                    Inl e \<Rightarrow> Inl e
                  | Inr left_dataset' \<Rightarrow> Inr (left_dataset', right_dataset')))
          else Inr (left_dataset, right_dataset)))))"

text \<open>
  \<open>merge_datasets_on_relationship_columns\<close>. \<open>right_dataset[column_with_names][0]\<close> reads
  the name column at label 0, the first row of a frame with the default index; it raises
  on a frame without rows. Frames carry the default index 0, 1, ... of their rows. A name
  that is not a text is not a column of the left dataset.
  \<open>pd.merge\<close> is a parameter \<open>pd_merge left right left_on right_on suffixes\<close> of the
  model, always called with \<open>how = outer\<close>.
\<close>

definition merge_datasets_on_relationship_columns ::
  "(dataframe \<Rightarrow> dataframe \<Rightarrow> string list \<Rightarrow> string list \<Rightarrow> string \<times> string \<Rightarrow> error + 'r)
     \<Rightarrow> (string \<Rightarrow> bool) \<Rightarrow> (string \<Rightarrow> cell option)
     \<Rightarrow> dataframe \<Rightarrow> dataframe \<Rightarrow> string \<Rightarrow> string \<Rightarrow> string
     \<Rightarrow> error + 'r" where
  "merge_datasets_on_relationship_columns pd_merge isdigit str_to_float left_dataset right_dataset
       right_dataset_domain_name column_with_names column_with_values =
     (case column_cells right_dataset column_with_names of
        Inl e \<Rightarrow> Inl e
      | Inr [] \<Rightarrow> Inl KeyError
      | Inr (Str left_ds_col_name # later_names) \<Rightarrow>
          (case cast_numeric_cols_to_same_data_type isdigit str_to_float right_dataset
                  column_with_values left_dataset left_ds_col_name of
             Inl e \<Rightarrow> Inl e
           | Inr (right_dataset', left_dataset') \<Rightarrow>
               pd_merge left_dataset' right_dataset' [left_ds_col_name] [column_with_values]
                 ('''', ''.'' @ right_dataset_domain_name))
      | Inr (c # later_names) \<Rightarrow> Inl KeyError)"

section \<open>Operations on dates\<close>

text \<open>
  The parameters of an operation call (\<open>OperationParams\<close>), with the fields the operations
  below read. The study-wide dataset descriptors are pairs (domain, filename).
\<close>

type_synonym dataset_descriptor = "string \<times> string"

record operation_params =
  dataframe :: dataframe
  target :: string
  grouping :: "string list"
  domain :: string
  meddra_path :: "string option"
  directory_path :: string
  datasets :: "dataset_descriptor list"

text \<open>
  \<open>dy\<close>. \<open>datetime.fromisoformat\<close> is a parameter of the model: it gives the datetime a
  text denotes, and \<open>None\<close> where it raises ValueError. A datetime is naive (\<open>Naive t\<close>,
  \<open>t\<close> the microseconds since 1970-01-01 on its own clock) or carries a UTC offset
  (\<open>Aware t offset\<close>). A cell that is not a text makes \<open>fromisoformat\<close> raise TypeError, and
  \<open>Series.map\<close> raises as soon as one cell does.

  The mapped Series has the storage type \<open>datetime64[ns]\<close> when all its datetimes are
  naive and lie in the range of that type (from 1677-09-21 to 2262-04-11); otherwise it is
  not of that type (an object Series, or a Series with a time zone). Two
  \<open>datetime64[ns]\<close> Series are subtracted instant by instant. Subtracting a
  \<open>datetime64[ns]\<close> Series from a Series of another type raises TypeError. What pandas
  does when the Series subtracted is itself not \<open>datetime64[ns]\<close> depends on the
  datetimes it holds; there the differences (in microseconds), or the error, are a
  parameter \<open>subtract_other\<close> of the model.
  The \<open>days\<close> of a time difference is the difference divided by one day, rounded down.
\<close>

datatype pydatetime = Naive int | Aware int int


definition in_datetime64_range :: "pydatetime \<Rightarrow> bool" where
  "in_datetime64_range d =
     (case d of
        Naive t \<Rightarrow> - 9223372036854775 \<le> t \<and> t \<le> 9223372036854775
      | Aware t offset \<Rightarrow> False)"





text \<open>
  \<open>min_date\<close> and \<open>max_date\<close>. \<open>pd.to_datetime\<close>, called on the target column with its
  default \<open>errors = raise\<close>, is a parameter of the model: it gives one entry per cell, an
  instant or \<open>NaT\<close> (here \<open>None\<close>) for a null or a null marker, or it raises when a cell
  cannot be parsed. \<open>Series.min\<close> and \<open>Series.max\<close> skip \<open>NaT\<close> and give \<open>NaT\<close> when
  nothing is left. The rendering \<open>isoformat\<close> and the grouped aggregates of pandas are
  parameters as well.
\<close>

definition series_min :: "int option list \<Rightarrow> int option" where
  "series_min data =
     (case List.map_filter id data of [] \<Rightarrow> None | t # ts \<Rightarrow> Some (fold min ts t))"

definition series_max :: "int option list \<Rightarrow> int option" where
  "series_max data =
     (case List.map_filter id data of [] \<Rightarrow> None | t # ts \<Rightarrow> Some (fold max ts t))"

datatype date_result = Text string | Table dataframe

definition min_date ::
  "(cell list \<Rightarrow> error + int option list) \<Rightarrow> (int \<Rightarrow> string)
     \<Rightarrow> (dataframe \<Rightarrow> string list \<Rightarrow> error + dataframe)
     \<Rightarrow> operation_params \<Rightarrow> error + date_result" where
  "min_date to_datetime isoformat groupby_min params =
     (if grouping params = [] then
        (case column_cells (dataframe params) (target params) of
           Inl e \<Rightarrow> Inl e
         | Inr cs \<Rightarrow>
             (case to_datetime cs of
                Inl e \<Rightarrow> Inl e
              | Inr data \<Rightarrow>
                  (case series_min data of
                     None \<Rightarrow> Inr (Text '''')
                   | Some t \<Rightarrow> Inr (Text (isoformat t)))))
      else
        (case groupby_min (dataframe params) (grouping params) of
           Inl e \<Rightarrow> Inl e
         | Inr table \<Rightarrow> Inr (Table table)))"

definition max_date ::
  "(cell list \<Rightarrow> error + int option list) \<Rightarrow> (int \<Rightarrow> string)
     \<Rightarrow> (dataframe \<Rightarrow> string list \<Rightarrow> error + dataframe)
     \<Rightarrow> operation_params \<Rightarrow> error + date_result" where
  "max_date to_datetime isoformat groupby_max params =
     (if grouping params = [] then
        (case column_cells (dataframe params) (target params) of
           Inl e \<Rightarrow> Inl e
         | Inr cs \<Rightarrow>
             (case to_datetime cs of
                Inl e \<Rightarrow> Inl e
              | Inr data \<Rightarrow>
                  (case series_max data of
                     None \<Rightarrow> Inr (Text '''')
                   | Some t \<Rightarrow> Inr (Text (isoformat t)))))
      else
        (case groupby_max (dataframe params) (grouping params) of
           Inl e \<Rightarrow> Inl e
         | Inr table \<Rightarrow> Inr (Table table)))"

section \<open>The cache and the data service\<close>

text \<open>
  The cache maps text keys to values of several kinds: a dictionary term tree (of a type
  \<open>'t\<close> that the model leaves open), a value counter, a set of hierarchy paths, and the
  (code, term) pair sets by term type. \<open>get\<close> gives \<open>None\<close> for an absent key and \<open>add\<close>
  overwrites. \<open>truthy\<close> is Python's truth value of what \<open>get\<close> returned: \<open>None\<close> and
  empty containers are false; a term tree counts as true.
\<close>

datatype 't cached =
    TermsValue 't
  | CountsValue "cell multiset"
  | HierarchiesValue "string set"
  | PairsValue "(string \<times> (cell \<times> cell) set) list"

type_synonym 't cache = "string \<Rightarrow> 't cached option"

fun truthy :: "'t cached option \<Rightarrow> bool" where
  "truthy None = False"
| "truthy (Some (TermsValue t)) = True"
| "truthy (Some (CountsValue m)) = (m \<noteq> {#})"
| "truthy (Some (HierarchiesValue h)) = (h \<noteq> {})"
| "truthy (Some (PairsValue p)) = (p \<noteq> [])"

text \<open>
  The data service: loading a dataset by path, joining the files of a split dataset, and
  whether it is the stand-in \<open>DummyDataService\<close>.
\<close>

record data_service =
  get_dataset :: "string \<Rightarrow> dataframe"
  join_split_datasets :: "(string \<Rightarrow> dataframe) \<Rightarrow> string list \<Rightarrow> dataframe"
  is_dummy_data :: bool

section \<open>Scanning the study\<close>

text \<open>
  Modelled from the spec: \<open>get_corresponding_datasets\<close> and \<open>is_split_dataset\<close> belong to the
  utilities module, which is not among the sources. A split dataset is one logical domain
  stored in several files: the corresponding datasets of a domain are the descriptors
  with that domain, and the domain is split when there is more than one.
\<close>

definition get_corresponding_datasets ::
  "dataset_descriptor list \<Rightarrow> string \<Rightarrow> dataset_descriptor list" where
  "get_corresponding_datasets ds domain_code = filter (\<lambda>d. fst d = domain_code) ds"

definition is_split_dataset :: "dataset_descriptor list \<Rightarrow> string \<Rightarrow> bool" where
  "is_split_dataset ds domain_code = (1 < length (get_corresponding_datasets ds domain_code))"

text \<open>\<open>str.replace(old, new, 1)\<close>: the first occurrence of \<open>old\<close> is replaced.\<close>

fun replace_first :: "string \<Rightarrow> string \<Rightarrow> string \<Rightarrow> string" where
  "replace_first old new [] = (if old = [] then new else [])"
| "replace_first old new (c # cs) =
     (if take (length old) (c # cs) = old then new @ drop (length old) (c # cs)
      else c # replace_first old new cs)"

definition get_dataset_variables :: "string \<Rightarrow> dataset_descriptor \<Rightarrow> data_service \<Rightarrow> string set" where
  "get_dataset_variables study_path dataset service =
     set (column_names (get_dataset service (study_path @ ''/'' @ snd dataset)))"

text \<open>
  \<open>asyncio.gather\<close> gives the results of the tasks as a list; \<open>set().union(*results)\<close> and
  \<open>sum(results, Counter())\<close> fold it from the left. A \<open>Counter\<close> built from a list of
  values counts each value once per occurrence and is the multiset of the list; adding
  counters adds the counts.
\<close>

definition union_all :: "'a set list \<Rightarrow> 'a set" where
  "union_all results = foldl (\<union>) {} results"

definition sum_counters :: "'a multiset list \<Rightarrow> 'a multiset" where
  "sum_counters results = foldl (+) {#} results"

definition get_all_study_variables ::
  "string \<Rightarrow> data_service \<Rightarrow> dataset_descriptor list \<Rightarrow> string set" where
  "get_all_study_variables study_path service ds =
     union_all (map (\<lambda>dataset. get_dataset_variables study_path dataset service) ds)"

definition get_dataset_variable_value_count ::
  "string \<Rightarrow> string \<Rightarrow> dataset_descriptor list \<Rightarrow> dataset_descriptor \<Rightarrow> data_service
     \<Rightarrow> cell multiset" where
  "get_dataset_variable_value_count tgt study_path ds dataset service =
     (let domain_code = fst dataset;
          data = (if is_split_dataset ds domain_code
                  then join_split_datasets service (get_dataset service)
                         (map (\<lambda>d. study_path @ ''/'' @ snd d) (get_corresponding_datasets ds domain_code))
                  else get_dataset service (study_path @ ''/'' @ snd dataset));
          target_variable = replace_first ''--'' domain_code tgt
      in case column_cells data target_variable of
           Inl e \<Rightarrow> {#}
         | Inr cs \<Rightarrow> mset (remdups cs))"

text \<open>
  The dictionary comprehension \<open>{dataset[domain]: dataset for dataset in datasets}\<close> keeps
  one descriptor per domain: the last one, at the place of the first.
\<close>

fun dict_put :: "('k \<times> 'v) list \<Rightarrow> 'k \<Rightarrow> 'v \<Rightarrow> ('k \<times> 'v) list" where
  "dict_put [] k v = [(k, v)]"
| "dict_put ((k', v') # kvs) k v =
     (if k' = k then (k, v) # kvs else (k', v') # dict_put kvs k v)"

definition datasets_with_unique_domains :: "dataset_descriptor list \<Rightarrow> dataset_descriptor list" where
  "datasets_with_unique_domains ds = map snd (foldl (\<lambda>d x. dict_put d (fst x) x) [] ds)"

definition get_all_study_variable_value_counts ::
  "string \<Rightarrow> string \<Rightarrow> data_service \<Rightarrow> dataset_descriptor list \<Rightarrow> cell multiset" where
  "get_all_study_variable_value_counts tgt study_path service ds =
     sum_counters (map (\<lambda>dataset. get_dataset_variable_value_count tgt study_path ds dataset service)
                     (datasets_with_unique_domains ds))"

text \<open>
  \<open>variable_value_count\<close> returns what it found in the cache or has computed, together
  with the cache after the call. \<open>get_operations_cache_key\<close> is not among the sources and
  is a parameter.
\<close>

definition variable_value_count ::
  "(string \<Rightarrow> string \<Rightarrow> string) \<Rightarrow> data_service \<Rightarrow> 't cache \<Rightarrow> operation_params
     \<Rightarrow> 't cached \<times> 't cache" where
  "variable_value_count get_operations_cache_key service cache params =
     (let cache_key = get_operations_cache_key (directory_path params)
                        (''study_value_count_'' @ target params);
          found = (if \<not> is_dummy_data service then cache cache_key else None)
      in case (truthy found, found) of
           (True, Some v) \<Rightarrow> (v, cache)
         | _ \<Rightarrow>
             (let v = CountsValue (get_all_study_variable_value_counts (target params)
                                     (directory_path params) service (datasets params))
              in (v, if \<not> is_dummy_data service then cache(cache_key \<mapsto> v) else cache)))"

section \<open>Dictionary validity operations\<close>

text \<open>
  Modelled from the spec: the enumerations \<open>MedDRAVariables\<close> and \<open>TermTypes\<close> are not among
  the sources. The operations read five hierarchy columns by code and five by term, at the
  levels SOC, HLGT, HLT, PT and LLT; the text of a variable is taken to be its name and the
  text of a term type its level in lower case.
\<close>

datatype MedDRAVariables = SOC | SOCCD | HLGT | HLGTCD | HLT | HLTCD | DECOD | PTCD | LLT | LLTCD

fun variable_text :: "MedDRAVariables \<Rightarrow> string" where
  "variable_text SOC = ''SOC''"
| "variable_text SOCCD = ''SOCCD''"
| "variable_text HLGT = ''HLGT''"
| "variable_text HLGTCD = ''HLGTCD''"
| "variable_text HLT = ''HLT''"
| "variable_text HLTCD = ''HLTCD''"
| "variable_text DECOD = ''DECOD''"
| "variable_text PTCD = ''PTCD''"
| "variable_text LLT = ''LLT''"
| "variable_text LLTCD = ''LLTCD''"

datatype TermTypes = TermTypes_SOC | TermTypes_HLGT | TermTypes_HLT | TermTypes_PT | TermTypes_LLT

fun term_type_text :: "TermTypes \<Rightarrow> string" where
  "term_type_text TermTypes_SOC = ''soc''"
| "term_type_text TermTypes_HLGT = ''hlgt''"
| "term_type_text TermTypes_HLT = ''hlt''"
| "term_type_text TermTypes_PT = ''pt''"
| "term_type_text TermTypes_LLT = ''llt''"

text \<open>
  The lines the three MedDRA operations share: the index is looked up under its cache
  key; when what is found is not truthy, the term tree is read from the cache under the
  dictionary path, the index is built from it and stored. The builders
  (\<open>MedDRATerm.get_code_hierarchies\<close> and its siblings) are parameters; they get what the
  cache holds under the path. The result is the cache after these lines, whether the
  builder was called, and the index or the builder's error.
\<close>

definition cached_or_built ::
  "'t cache \<Rightarrow> string \<Rightarrow> string \<Rightarrow> ('t cached option \<Rightarrow> error + 't cached)
     \<Rightarrow> 't cache \<times> bool \<times> (error + 't cached)" where
  "cached_or_built cache cache_key path build =
     (case (truthy (cache cache_key), cache cache_key) of
        (True, Some v) \<Rightarrow> (cache, False, Inr v)
      | _ \<Rightarrow>
          (case build (cache path) of
             Inl e \<Rightarrow> (cache, True, Inl e)
           | Inr v \<Rightarrow> (cache(cache_key \<mapsto> v), True, Inr v)))"

fun join_str :: "string \<Rightarrow> string list \<Rightarrow> string" where
  "join_str sep [] = []"
| "join_str sep [x] = x"
| "join_str sep (x # y # zs) = x @ sep @ join_str sep (y # zs)"

text \<open>
  \<open>dataframe[names].agg(''/''.join, axis=1)\<close>: the named columns must exist, and every
  cell joined must be a text. On a frame without rows \<open>agg\<close> gives a copy of the frame
  instead of a Series, and assigning that frame to the single new column raises
  ValueError.
\<close>

definition agg_join :: "dataframe \<Rightarrow> string list \<Rightarrow> error + string list" where
  "agg_join df names =
     (case get_locs (column_names df) names of
        None \<Rightarrow> Inl KeyError
      | Some locs \<Rightarrow>
          if rows df = [] then Inl ValueError
          else
          collect (map (\<lambda>r. case collect (map (\<lambda>i. case nth_cell r i of
                                                      Str s \<Rightarrow> Inr s
                                                    | _ \<Rightarrow> Inl TypeError) locs) of
                               Inl e \<Rightarrow> Inl e
                             | Inr parts \<Rightarrow> Inr (join_str ''/'' parts)) (rows df)))"

definition path_missing :: "string option \<Rightarrow> bool" where
  "path_missing p = (case p of None \<Rightarrow> True | Some s \<Rightarrow> s = [])"

text \<open>
  Each operation returns the cache after the call, whether the index was built during the
  call, and either the error raised or the boolean series together with the caller's
  data frame as the call leaves it. \<open>uuid4\<close> is the text of the fresh identifier.
\<close>

definition valid_meddra_code_references ::
  "('t cached option \<Rightarrow> error + string set) \<Rightarrow> string \<Rightarrow> 't cache \<Rightarrow> operation_params
     \<Rightarrow> 't cache \<times> bool \<times> (error + (bool list \<times> dataframe))" where
  "valid_meddra_code_references get_code_hierarchies uuid4 cache params =
     (if path_missing (meddra_path params) then (cache, False, Inl ValueError)
      else
        (let code_strings = map (\<lambda>variable. domain params @ variable_text variable)
                              [SOCCD, HLGTCD, HLTCD, PTCD, LLTCD];
             cache_key = ''meddra_valid_code_hierarchies_'' @ the (meddra_path params)
         in case cached_or_built cache cache_key (the (meddra_path params))
                   (\<lambda>terms. case get_code_hierarchies terms of
                               Inl e \<Rightarrow> Inl e | Inr h \<Rightarrow> Inr (HierarchiesValue h)) of
              (cache', built, Inl e) \<Rightarrow> (cache', built, Inl e)
            | (cache', built, Inr valid_code_hierarchies) \<Rightarrow>
                (cache', built,
                 (let column = uuid4 @ ''_codes''
                  in case agg_join (dataframe params) code_strings of
                       Inl e \<Rightarrow> Inl e
                     | Inr joined \<Rightarrow>
                         (case valid_code_hierarchies of
                            HierarchiesValue h \<Rightarrow>
                              Inr (map (\<lambda>s. s \<in> h) joined,
                                   set_column (dataframe params) column Object (map Str joined))
                          | _ \<Rightarrow> Inl TypeError)))))"

definition valid_meddra_term_references ::
  "('t cached option \<Rightarrow> error + string set) \<Rightarrow> string \<Rightarrow> 't cache \<Rightarrow> operation_params
     \<Rightarrow> 't cache \<times> bool \<times> (error + (bool list \<times> dataframe))" where
  "valid_meddra_term_references get_term_hierarchies uuid4 cache params =
     (if path_missing (meddra_path params) then (cache, False, Inl ValueError)
      else
        (let code_strings = map (\<lambda>variable. domain params @ variable_text variable)
                              [SOC, HLGT, HLT, DECOD, LLT];
             cache_key = ''meddra_valid_term_hierarchies_'' @ the (meddra_path params)
         in case cached_or_built cache cache_key (the (meddra_path params))
                   (\<lambda>terms. case get_term_hierarchies terms of
                               Inl e \<Rightarrow> Inl e | Inr h \<Rightarrow> Inr (HierarchiesValue h)) of
              (cache', built, Inl e) \<Rightarrow> (cache', built, Inl e)
            | (cache', built, Inr valid_term_hierarchies) \<Rightarrow>
                (cache', built,
                 (let column = uuid4 @ ''_terms''
                  in case agg_join (dataframe params) code_strings of
                       Inl e \<Rightarrow> Inl e
                     | Inr joined \<Rightarrow>
                         (case valid_term_hierarchies of
                            HierarchiesValue h \<Rightarrow>
                              Inr (map (\<lambda>s. s \<in> h) joined,
                                   set_column (dataframe params) column Object (map Str joined))
                          | _ \<Rightarrow> Inl TypeError)))))"

text \<open>
  \<open>_get_columns_by_meddra_variable_name\<close>: the table from a target variable to its term
  type and its (code column, term column) pair; \<open>None\<close> for any other target.
\<close>

definition get_columns_by_meddra_variable_name ::
  "operation_params \<Rightarrow> (string \<times> (string \<times> string)) option" where
  "get_columns_by_meddra_variable_name params =
     map_of
       (concat (map (\<lambda>(term_type, code, term).
            [(domain params @ variable_text term,
                (term_type_text term_type,
                 (domain params @ variable_text code, domain params @ variable_text term))),
             (domain params @ variable_text code,
                (term_type_text term_type,
                 (domain params @ variable_text code, domain params @ variable_text term)))])
          [(TermTypes_SOC, SOCCD, SOC), (TermTypes_HLGT, HLGTCD, HLGT), (TermTypes_HLT, HLTCD, HLT),
           (TermTypes_PT, PTCD, DECOD), (TermTypes_LLT, LLTCD, LLT)]))
       (target params)"

definition valid_meddra_code_term_pairs ::
  "(string \<Rightarrow> string) \<Rightarrow> ('t cached option \<Rightarrow> error + (string \<times> (cell \<times> cell) set) list)
     \<Rightarrow> string \<Rightarrow> 't cache \<Rightarrow> operation_params
     \<Rightarrow> 't cache \<times> bool \<times> (error + (bool list \<times> dataframe))" where
  "valid_meddra_code_term_pairs get_meddra_code_term_pairs_cache_key get_code_term_pairs
       uuid4 cache params =
     (if path_missing (meddra_path params) then (cache, False, Inl ValueError)
      else
        (case get_columns_by_meddra_variable_name params of
           None \<Rightarrow> (cache, False, Inl TypeError)
         | Some (term_type, cols) \<Rightarrow>
             (case cached_or_built cache
                     (get_meddra_code_term_pairs_cache_key (the (meddra_path params)))
                     (the (meddra_path params))
                     (\<lambda>terms. case get_code_term_pairs terms of
                                 Inl e \<Rightarrow> Inl e | Inr p \<Rightarrow> Inr (PairsValue p)) of
                (cache', built, Inl e) \<Rightarrow> (cache', built, Inl e)
              | (cache', built, Inr valid_code_term_pairs) \<Rightarrow>
                  (cache', built,
                   (let column = uuid4 @ ''_pairs''
                    in case column_cells (dataframe params) (fst cols) of
                         Inl e \<Rightarrow> Inl e
                       | Inr codes \<Rightarrow>
                           (case column_cells (dataframe params) (snd cols) of
                              Inl e \<Rightarrow> Inl e
                            | Inr terms \<Rightarrow>
                                (case valid_code_term_pairs of
                                   PairsValue p \<Rightarrow>
                                     (case map_of p term_type of
                                        None \<Rightarrow> Inl KeyError
                                      | Some pairs \<Rightarrow>
                                          Inr (map (\<lambda>pair. pair \<in> pairs) (zip codes terms),
                                               set_column (dataframe params) column Object
                                                 (map (\<lambda>(c, t). Tuple c t) (zip codes terms))))
                                 | _ \<Rightarrow> Inl TypeError)))))))"

section \<open>Example data\<close>

text \<open>
  The frames of the docstring of \<open>filter_dataset_by_match_keys_of_other_dataset\<close>.
\<close>

definition example_dataset :: dataframe where
  "example_dataset =
     \<lparr>columns = [(''DOMAIN'', Object), (''USUBJID'', Object)],
      rows = [[Str ''AE'', Str ''CDISC001''], [Str ''AE'', Str ''CDISC001''],
              [Str ''AE'', Str ''CDISC009'']]\<rparr>"

definition example_other_dataset :: dataframe where
  "example_other_dataset =
     \<lparr>columns = [(''USUBJID'', Object), (''DOMAIN'', Object)],
      rows = [[Str ''CDISC009'', Str ''AE'']]\<rparr>"

text \<open>
  A study of two datasets and its data service. The data service joins the files of a
  split dataset by putting their rows one after the other.
\<close>

definition example_ae :: dataframe where
  "example_ae =
     \<lparr>columns = [(''STUDYID'', Object), (''AESEV'', Object)],
      rows = [[Str ''S1'', Str ''MILD''], [Str ''S1'', Str ''MILD''], [Str ''S1'', Str ''SEVERE'']]\<rparr>"

definition example_dm :: dataframe where
  "example_dm =
     \<lparr>columns = [(''STUDYID'', Object), (''USUBJID'', Object)],
      rows = [[Str ''S1'', Str ''CDISC001'']]\<rparr>"

definition example_get_dataset :: "string \<Rightarrow> dataframe" where
  "example_get_dataset path =
     (if path = ''study/ae.xpt'' then example_ae
      else if path = ''study/dm.xpt'' then example_dm
      else \<lparr>columns = [], rows = []\<rparr>)"

definition example_join_split_datasets :: "(string \<Rightarrow> dataframe) \<Rightarrow> string list \<Rightarrow> dataframe" where
  "example_join_split_datasets load files =
     \<lparr>columns = (case files of [] \<Rightarrow> [] | f # fs \<Rightarrow> columns (load f)),
      rows = concat (map (\<lambda>f. rows (load f)) files)\<rparr>"

definition example_service :: data_service where
  "example_service =
     \<lparr>get_dataset = example_get_dataset,
      join_split_datasets = example_join_split_datasets,
      is_dummy_data = False\<rparr>"

definition example_study :: "dataset_descriptor list" where
  "example_study = [(''AE'', ''ae.xpt''), (''DM'', ''dm.xpt'')]"

definition example_operations_cache_key :: "string \<Rightarrow> string \<Rightarrow> string" where
  "example_operations_cache_key directory operation_name = directory @ ''/'' @ operation_name"

definition example_count_params :: operation_params where
  "example_count_params =
     \<lparr>dataframe = example_ae, target = ''--SEV'', grouping = [], domain = ''AE'',
      meddra_path = None, directory_path = ''study'', datasets = example_study\<rparr>"

text \<open>
  Three rows for \<open>dy\<close>: the target date on the reference date, one day before it and two
  days after it. The table gives \<open>datetime.fromisoformat\<close> on the dates used (days since
  1970-01-01 times the microseconds of a day); it rejects every other text used below,
  such as the empty text. The examples do not reach the parameter for the subtraction
  from a Series that is not \<open>datetime64[ns]\<close>. Of the two further frames, one has a target
  date beyond the range of \<open>datetime64[ns]\<close> and one an empty target date in its second
  row.
\<close>

definition example_fromisoformat :: "string \<Rightarrow> pydatetime option" where
  "example_fromisoformat s =
     map_of [(''2022-01-09'', Naive (19001 * 86400000000)),
             (''2022-01-10'', Naive (19002 * 86400000000)),
             (''2022-01-12'', Naive (19004 * 86400000000)),
             (''2300-01-01'', Naive (120530 * 86400000000))] s"





text \<open>
  The relationship records of the docstring of
  \<open>filter_dataset_by_nested_columns_of_other_dataset\<close> and a parent dataset of four rows.
\<close>

definition example_ec :: dataframe where
  "example_ec =
     \<lparr>columns = [(''ECSEQ'', Numeric), (''ECNUM'', Numeric), (''ECDOSE'', Numeric)],
      rows = [[Num 100, Num 105, Num 1], [Num 101, Num 999, Num 2],
              [Num 555, Num 105, Num 3], [Num 7, Num 8, Num 4]]\<rparr>"

definition example_relrec :: dataframe where
  "example_relrec =
     \<lparr>columns = [(''IDVAR'', Object), (''IDVARVAL'', Object)],
      rows = [[Str ''ECSEQ'', Str ''100''], [Str ''ECSEQ'', Str ''101''],
              [Str ''ECNUM'', Str ''105'']]\<rparr>"

definition example_relrec_one_name :: dataframe where
  "example_relrec_one_name =
     \<lparr>columns = [(''IDVAR'', Object), (''IDVARVAL'', Object)],
      rows = [[Str ''ECSEQ'', Str ''100''], [Str ''ECSEQ'', Str ''101''],
              [Str ''ECSEQ'', Str ''105'']]\<rparr>"

text \<open>A stand-in for \<open>pd.merge\<close> that reports the join columns it is called with.\<close>

definition join_columns_of_call ::
  "dataframe \<Rightarrow> dataframe \<Rightarrow> string list \<Rightarrow> string list \<Rightarrow> string \<times> string
     \<Rightarrow> error + (string list \<times> string list)" where
  "join_columns_of_call left right left_on right_on suffixes = Inr (left_on, right_on)"





text \<open>
  Date columns for \<open>min_date\<close> and \<open>max_date\<close>, with a table of \<open>pd.to_datetime\<close> on the
  cells they hold (a null and the empty text give \<open>NaT\<close>, the dates above that lie in
  the range of \<open>datetime64[ns]\<close> their instant, and the text \<open>abc\<close> is no date: the call
  raises) and of \<open>isoformat\<close> on the instants of the table. The grouped aggregate is not reached by the examples.
\<close>

definition example_to_datetime :: "cell list \<Rightarrow> error + int option list" where
  "example_to_datetime cs =
     collect (map (\<lambda>c. case c of
                          NA \<Rightarrow> Inr None
                        | Str s \<Rightarrow>
                            (if s = [] then Inr None
                             else (case example_fromisoformat s of
                                     Some (Naive t) \<Rightarrow>
                                       (if in_datetime64_range (Naive t) then Inr (Some t)
                                        else Inl ValueError)
                                   | _ \<Rightarrow> Inl ValueError))
                        | _ \<Rightarrow> Inl TypeError) cs)"

definition example_isoformat :: "int \<Rightarrow> string" where
  "example_isoformat t =
     (if t = 19001 * 86400000000 then ''2022-01-09T00:00:00''
      else if t = 19002 * 86400000000 then ''2022-01-10T00:00:00''
      else if t = 19004 * 86400000000 then ''2022-01-12T00:00:00''
      else [])"

definition example_groupby :: "dataframe \<Rightarrow> string list \<Rightarrow> error + dataframe" where
  "example_groupby df by = Inl KeyError"

definition example_date_params :: "cell list \<Rightarrow> operation_params" where
  "example_date_params cs =
     \<lparr>dataframe = \<lparr>columns = [(''AESTDTC'', Object)], rows = map (\<lambda>c. [c]) cs\<rparr>,
      target = ''AESTDTC'', grouping = [], domain = ''AE'',
      meddra_path = None, directory_path = ''study'', datasets = example_study\<rparr>"

text \<open>
  A MedDRA-coded adverse event record, a cache that holds a term tree under the dictionary
  path, and builders of the derived indices: one set of builders for a dictionary with
  one term per level, one builder for a dictionary without terms. The last parameters
  are those of a second call on the same record, after a first call of
  \<open>valid_meddra_code_references\<close> with the identifier 7f3a.
\<close>

definition example_meddra_params :: operation_params where
  "example_meddra_params =
     \<lparr>dataframe =
        \<lparr>columns = [(''AESOCCD'', Object), (''AEHLGTCD'', Object), (''AEHLTCD'', Object),
                    (''AEPTCD'', Object), (''AELLTCD'', Object), (''AESOC'', Object),
                    (''AEHLGT'', Object), (''AEHLT'', Object), (''AEDECOD'', Object),
                    (''AELLT'', Object)],
         rows = [[Str ''11'', Str ''12'', Str ''13'', Str ''14'', Str ''15'',
                  Str ''A'', Str ''B'', Str ''C'', Str ''D'', Str ''E'']]\<rparr>,
      target = ''AESOCCD'', grouping = [], domain = ''AE'',
      meddra_path = Some ''meddra'', directory_path = ''study'', datasets = example_study\<rparr>"

definition example_cache :: "unit cache" where
  "example_cache = (\<lambda>key. if key = ''meddra'' then Some (TermsValue ()) else None)"

definition example_get_code_hierarchies :: "unit cached option \<Rightarrow> error + string set" where
  "example_get_code_hierarchies terms = Inr {''11/12/13/14/15''}"

definition example_get_term_hierarchies :: "unit cached option \<Rightarrow> error + string set" where
  "example_get_term_hierarchies terms = Inr {''A/B/C/D/E''}"

definition example_get_code_term_pairs ::
  "unit cached option \<Rightarrow> error + (string \<times> (cell \<times> cell) set) list" where
  "example_get_code_term_pairs terms =
     Inr [(''soc'', {(Str ''11'', Str ''A'')}), (''hlgt'', {(Str ''12'', Str ''B'')}),
          (''hlt'', {(Str ''13'', Str ''C'')}), (''pt'', {(Str ''14'', Str ''D'')}),
          (''llt'', {(Str ''15'', Str ''E'')})]"

definition example_pairs_cache_key :: "string \<Rightarrow> string" where
  "example_pairs_cache_key path = ''meddra_valid_code_term_pairs_'' @ path"

definition get_code_hierarchies_of_empty_dictionary :: "unit cached option \<Rightarrow> error + string set" where
  "get_code_hierarchies_of_empty_dictionary terms = Inr {}"

definition example_meddra_params_after_codes :: operation_params where
  "example_meddra_params_after_codes =
     example_meddra_params
       \<lparr>dataframe := set_column (dataframe example_meddra_params) ''7f3a_codes'' Object
                       [Str ''11/12/13/14/15'']\<rparr>"

text \<open>What an operation leaves of the caller's data frame, when it returns.\<close>

definition frame_after :: "'c \<times> bool \<times> (error + (bool list \<times> dataframe)) \<Rightarrow> dataframe option" where
  "frame_after out = (case snd (snd out) of Inl e \<Rightarrow> None | Inr (series, df) \<Rightarrow> Some df)"

section \<open>Properties of the match-key filter\<close>

lemma index_of_lt: "index_of x xs = Some i \<Longrightarrow> i < length xs \<and> xs ! i = x"
  by (induction xs arbitrary: i) (auto split: if_splits)

lemma index_of_append: "index_of x xs = Some i \<Longrightarrow> index_of x (xs @ ys) = Some i"
  by (induction xs arbitrary: i) (auto split: if_splits)

lemma index_of_nth: "distinct xs \<Longrightarrow> i < length xs \<Longrightarrow> index_of (xs ! i) xs = Some i"
proof (induction xs arbitrary: i)
  case Nil
  then show ?case by simp
next
  case (Cons a xs)
  show ?case
  proof (cases i)
    case 0
    then show ?thesis by simp
  next
    case (Suc j)
    with Cons show ?thesis by auto
  qed
qed

lemma index_of_mem: "x \<in> set xs \<Longrightarrow> \<exists>i. index_of x xs = Some i"
  by (induction xs) auto

lemma get_locs_length: "get_locs names ks = Some locs \<Longrightarrow> length locs = length ks"
  by (induction ks arbitrary: locs) (auto split: option.splits)

lemma get_locs_nth:
  "get_locs names ks = Some locs \<Longrightarrow> i < length ks \<Longrightarrow>
     locs ! i < length names \<and> names ! (locs ! i) = ks ! i"
proof (induction ks arbitrary: locs i)
  case Nil
  then show ?case by simp
next
  case (Cons k ks)
  then obtain j js where j: "index_of k names = Some j" and js: "get_locs names ks = Some js"
    and l: "locs = j # js" by (auto split: option.splits)
  show ?case
  proof (cases i)
    case 0
    with j l show ?thesis by (simp add: index_of_lt)
  next
    case (Suc i')
    with Cons.IH[OF js, of i'] Cons.prems l show ?thesis by simp
  qed
qed

lemma get_locs_total:
  "set ks \<subseteq> set names \<Longrightarrow> get_locs names ks = Some (map (\<lambda>k. the (index_of k names)) ks)"
proof (induction ks)
  case Nil
  then show ?case by simp
next
  case (Cons k ks)
  then have "k \<in> set names" by simp
  then obtain i where "index_of k names = Some i"
    using index_of_mem by fastforce
  with Cons show ?case by simp
qed

text \<open>When the keys are the first columns, they sit at the positions 0, 1, ...\<close>

lemma get_locs_front:
  assumes "distinct ks"
  shows "get_locs (ks @ rest) ks = Some [0..<length ks]"
proof -
  have "get_locs (ks @ rest) ks = Some (map (\<lambda>k. the (index_of k (ks @ rest))) ks)"
    by (rule get_locs_total) simp
  moreover have "map (\<lambda>k. the (index_of k (ks @ rest))) ks = [0..<length ks]"
  proof (rule nth_equalityI)
    show "length (map (\<lambda>k. the (index_of k (ks @ rest))) ks) = length [0..<length ks]" by simp
  next
    fix i assume "i < length (map (\<lambda>k. the (index_of k (ks @ rest))) ks)"
    then have i: "i < length ks" by simp
    from index_of_nth[OF assms i] have "index_of (ks ! i) (ks @ rest) = Some i"
      by (rule index_of_append)
    with i show "map (\<lambda>k. the (index_of k (ks @ rest))) ks ! i = [0..<length ks] ! i" by simp
  qed
  ultimately show ?thesis by simp
qed

lemma drop_locs_from_skip:
  "(\<forall>j < length xs. i + j \<in> set locs) \<Longrightarrow>
     drop_locs_from i locs (xs @ ys) = drop_locs_from (i + length xs) locs ys"
proof (induction xs arbitrary: i)
  case Nil
  then show ?case by simp
next
  case (Cons x xs)
  from Cons.prems have "i \<in> set locs" by force
  moreover have "\<forall>j < length xs. Suc i + j \<in> set locs"
    using Cons.prems by force
  ultimately show ?case using Cons.IH[of "Suc i"] by simp
qed

lemma drop_locs_from_keep: "n \<le> i \<Longrightarrow> drop_locs_from i [0..<n] ys = ys"
  by (induction ys arbitrary: i) auto

lemma drop_locs_front: "length xs = n \<Longrightarrow> drop_locs_from 0 [0..<n] (xs @ ys) = ys"
  using drop_locs_from_skip[of xs 0 "[0..<n]" ys] by (simp add: drop_locs_from_keep)

lemma nth_cell_front: "length xs = n \<Longrightarrow> map (nth_cell (xs @ ys)) [0..<n] = xs"
  by (auto simp: nth_cell_def nth_append intro!: nth_equalityI)

lemma nth_front: "length xs = n \<Longrightarrow> map (\<lambda>i. (xs @ ys) ! i) [0..<n] = xs"
  by (auto simp: nth_append intro!: nth_equalityI)

lemma set_index_Inr:
  assumes "set_index df keys = Inr (kc, rc, rs)"
  obtains locs where "keys \<noteq> []" "get_locs (column_names df) keys = Some locs"
    "kc = map (\<lambda>i. columns df ! i) locs" "rc = drop_locs_from 0 locs (columns df)"
    "rs = map (\<lambda>r. (map (nth_cell r) locs, drop_locs_from 0 locs r)) (rows df)"
  using assms unfolding set_index_def by (auto split: if_splits option.splits)

lemma set_index_key_names:
  assumes "set_index df keys = Inr (kc, rc, rs)"
  shows "map fst kc = keys"
proof -
  from assms obtain locs where g: "get_locs (column_names df) keys = Some locs"
    and kc: "kc = map (\<lambda>i. columns df ! i) locs" by (rule set_index_Inr)
  show ?thesis
  proof (rule nth_equalityI)
    show "length (map fst kc) = length keys" using kc get_locs_length[OF g] by simp
  next
    fix i assume "i < length (map fst kc)"
    then have i: "i < length keys" using kc get_locs_length[OF g] by simp
    from get_locs_nth[OF g i] have "locs ! i < length (columns df)"
      and "map fst (columns df) ! (locs ! i) = keys ! i"
      by (simp_all add: column_names_def)
    then have "locs ! i < length (columns df)" and "fst (columns df ! (locs ! i)) = keys ! i"
      by simp_all
    with i show "map fst kc ! i = keys ! i" using kc get_locs_length[OF g] by simp
  qed
qed

text \<open>
  Indexing a frame again by the distinct keys it was just un-indexed from gives the same
  index.
\<close>

lemma set_index_reset:
  assumes s: "set_index df keys = Inr (kc, rc, rs)" and sub: "set rs' \<subseteq> set rs"
    and d: "distinct keys"
  shows "set_index \<lparr>columns = kc @ rc, rows = map (\<lambda>(k, r). k @ r) rs'\<rparr> keys = Inr (kc, rc, rs')"
proof -
  from s obtain locs where ne: "keys \<noteq> []"
    and g: "get_locs (column_names df) keys = Some locs"
    and rs: "rs = map (\<lambda>r. (map (nth_cell r) locs, drop_locs_from 0 locs r)) (rows df)"
    by (rule set_index_Inr)
  let ?n = "length keys"
  let ?out = "\<lparr>columns = kc @ rc, rows = map (\<lambda>(k, r). k @ r) rs'\<rparr>"
  have names: "map fst kc = keys" using s by (rule set_index_key_names)
  then have lkc: "length kc = ?n" by (metis length_map)
  have cn: "column_names ?out = keys @ map fst rc"
    by (simp add: column_names_def names)
  have gl: "get_locs (column_names ?out) keys = Some [0..<?n]"
    unfolding cn using d by (rule get_locs_front)
  have klen: "length k = ?n" if "(k, r) \<in> set rs'" for k r
    using that sub rs get_locs_length[OF g] by auto
  have rows_eq: "map (\<lambda>r. (map (nth_cell r) [0..<?n], drop_locs_from 0 [0..<?n] r))
                   (map (\<lambda>(k, r). k @ r) rs') = rs'"
  proof -
    have "map ((\<lambda>r. (map (nth_cell r) [0..<?n], drop_locs_from 0 [0..<?n] r)) \<circ> (\<lambda>(k, r). k @ r)) rs'
            = rs'"
      by (rule map_idI) (auto simp: klen nth_cell_front drop_locs_front)
    then show ?thesis by simp
  qed
  show ?thesis
    unfolding set_index_def
    using ne gl rows_eq
    by (simp add: nth_front[OF lkc] drop_locs_front[OF lkc])
qed

lemma mask_filter: "map fst (filter snd (zip xs (map P xs))) = filter P xs"
  by (induction xs) auto

lemma index_isin_Inr:
  assumes "index_isin n labels m vals = Inr condition"
  shows "\<not> (2 \<le> n \<and> n \<noteq> m \<and> vals \<noteq> [])" and "condition = map (\<lambda>k. k \<in> set vals) labels"
  using assms unfolding index_isin_def by (auto split: if_splits)

lemma reset_index_Inr:
  assumes "reset_index (kc, rc, rs) = Inr out"
  shows "distinct (map fst kc)" and "out = \<lparr>columns = kc @ rc, rows = map (\<lambda>(k, r). k @ r) rs\<rparr>"
  using assms unfolding reset_index_def by (auto split: if_splits)

text \<open>
  Claim C7. Filtering by match keys is idempotent: whenever the filter returns a frame,
  applying it again to that frame, with the same keys and the same other dataset, returns
  the very same frame (same columns, same rows, same order).
\<close>

theorem filter_by_match_keys_idempotent:
  assumes "filter_dataset_by_match_keys_of_other_dataset dataset keys other other_keys = Inr out"
  shows "filter_dataset_by_match_keys_of_other_dataset out keys other other_keys = Inr out"
proof -
  from assms obtain kc rc rs okc orc ors condition where
    s: "set_index dataset keys = Inr (kc, rc, rs)" and
    so: "set_index other other_keys = Inr (okc, orc, ors)" and
    isin: "index_isin (length keys) (map fst rs) (length other_keys) (map fst ors) = Inr condition" and
    reset: "reset_index (kc, rc, map fst (filter snd (zip rs condition))) = Inr out"
    unfolding filter_dataset_by_match_keys_of_other_dataset_def
    by (auto split: sum.splits)
  let ?P = "\<lambda>kr. fst kr \<in> set (map fst ors)"
  let ?kept = "filter ?P rs"
  have cond: "condition = map ?P rs"
    using index_isin_Inr(2)[OF isin] by (simp add: comp_def)
  have kept: "map fst (filter snd (zip rs condition)) = ?kept"
    unfolding cond by (rule mask_filter)
  have d: "distinct keys"
    using reset_index_Inr(1)[OF reset] set_index_key_names[OF s] by simp
  have out: "out = \<lparr>columns = kc @ rc, rows = map (\<lambda>(k, r). k @ r) ?kept\<rparr>"
    using reset_index_Inr(2)[OF reset] kept by simp
  have s2: "set_index out keys = Inr (kc, rc, ?kept)"
    unfolding out by (rule set_index_reset[OF s _ d]) simp
  have isin2: "index_isin (length keys) (map fst ?kept) (length other_keys) (map fst ors)
                 = Inr (map ?P ?kept)"
    using index_isin_Inr(1)[OF isin] unfolding index_isin_def by (simp add: comp_def)
  have again: "map fst (filter snd (zip ?kept (map ?P ?kept))) = ?kept"
    unfolding mask_filter by simp
  have final: "reset_index (kc, rc, ?kept) = Inr out"
    using reset unfolding kept .
  have "filter_dataset_by_match_keys_of_other_dataset out keys other other_keys
          = reset_index (kc, rc, map fst (filter snd (zip ?kept (map ?P ?kept))))"
    unfolding filter_dataset_by_match_keys_of_other_dataset_def
    by (simp only: s2 so isin2 sum.case prod.case)
  also have "\<dots> = Inr out"
    unfolding again by (rule final)
  finally show ?thesis .
qed

theorem filter_by_match_keys_idempotent_witness:
  "filter_dataset_by_match_keys_of_other_dataset example_dataset [''USUBJID'']
       example_other_dataset [''USUBJID'']
     = Inr \<lparr>columns = [(''USUBJID'', Object), (''DOMAIN'', Object)],
            rows = [[Str ''CDISC009'', Str ''AE'']]\<rparr>
   \<and> filter_dataset_by_match_keys_of_other_dataset
       \<lparr>columns = [(''USUBJID'', Object), (''DOMAIN'', Object)],
        rows = [[Str ''CDISC009'', Str ''AE'']]\<rparr> [''USUBJID'']
       example_other_dataset [''USUBJID'']
     = Inr \<lparr>columns = [(''USUBJID'', Object), (''DOMAIN'', Object)],
            rows = [[Str ''CDISC009'', Str ''AE'']]\<rparr>"
proof -
  have first: "filter_dataset_by_match_keys_of_other_dataset example_dataset [''USUBJID'']
       example_other_dataset [''USUBJID'']
     = Inr \<lparr>columns = [(''USUBJID'', Object), (''DOMAIN'', Object)],
            rows = [[Str ''CDISC009'', Str ''AE'']]\<rparr>"
    by code_simp
  from filter_by_match_keys_idempotent[OF first] first show ?thesis by simp
qed

section \<open>Properties of the study scan\<close>

lemma foldl_union: "foldl (\<union>) A rs = A \<union> \<Union>(set rs)"
  by (induction rs arbitrary: A) auto

lemma union_all_Union: "union_all rs = \<Union>(set rs)"
  by (simp add: union_all_def foldl_union)

lemma foldl_plus: "foldl (+) (a::'a multiset) rs = a + sum_mset (mset rs)"
  by (induction rs arbitrary: a) (auto simp: add.assoc)

lemma sum_counters_sum_mset: "sum_counters rs = sum_mset (mset rs)"
  by (simp add: sum_counters_def foldl_plus)

lemma example_dataset_variables:
  "map (\<lambda>d. get_dataset_variables ''study'' d example_service) example_study
     = [{''STUDYID'', ''AESEV''}, {''STUDYID'', ''USUBJID''}]"
  by (simp add: get_dataset_variables_def example_service_def example_study_def
      example_get_dataset_def example_ae_def example_dm_def column_names_def)

lemma example_value_counts:
  "map (\<lambda>d. get_dataset_variable_value_count ''--SEV'' ''study'' example_study d example_service)
       (datasets_with_unique_domains example_study)
     = [{#Str ''MILD'', Str ''SEVERE''#}, {#}]"
  by (simp add: get_dataset_variable_value_count_def datasets_with_unique_domains_def
      example_service_def example_study_def example_get_dataset_def example_ae_def
      example_dm_def column_names_def is_split_dataset_def get_corresponding_datasets_def
      column_cells_def get_column_def nth_cell_def)

text \<open>
  Claim C8. The merge step of the study scan does not depend on the order of the
  per-domain results: any two lists of results that are permutations of each other have
  the same union and the same counter sum; in particular \<open>get_all_study_variables\<close> and
  \<open>get_all_study_variable_value_counts\<close> return the merge of their per-dataset results
  taken in any order of completion. The binary merge is commutative and associative.
\<close>

theorem study_merge_order_independent:
  assumes "mset results' = mset results"
    and "mset counters' = mset counters"
    and "mset sets_in_completion_order = mset (map (\<lambda>d. get_dataset_variables p d s) ds)"
    and "mset counters_in_completion_order =
           mset (map (\<lambda>d. get_dataset_variable_value_count t p ds d s)
                   (datasets_with_unique_domains ds))"
  shows "union_all results' = union_all results
       \<and> sum_counters counters' = sum_counters counters
       \<and> get_all_study_variables p s ds = union_all sets_in_completion_order
       \<and> get_all_study_variable_value_counts t p s ds = sum_counters counters_in_completion_order
       \<and> union_all [a, b] = union_all [b, a]
       \<and> union_all [union_all [a, b], c] = union_all [a, union_all [b, c]]
       \<and> sum_counters [x, y] = sum_counters [y, x]
       \<and> sum_counters [sum_counters [x, y], z] = sum_counters [x, sum_counters [y, z]]"
proof -
  have 1: "union_all results' = union_all results"
    using assms(1) by (metis union_all_Union set_mset_mset)
  have 2: "sum_counters counters' = sum_counters counters"
    using assms(2) by (simp add: sum_counters_sum_mset)
  have 3: "get_all_study_variables p s ds = union_all sets_in_completion_order"
    unfolding get_all_study_variables_def using assms(3) by (metis union_all_Union set_mset_mset)
  have 4: "get_all_study_variable_value_counts t p s ds = sum_counters counters_in_completion_order"
    unfolding get_all_study_variable_value_counts_def using assms(4)
    by (simp add: sum_counters_sum_mset)
  have 5: "union_all [a, b] = union_all [b, a]"
    and 6: "union_all [union_all [a, b], c] = union_all [a, union_all [b, c]]"
    by (auto simp: union_all_def)
  have 7: "sum_counters [x, y] = sum_counters [y, x]"
    and 8: "sum_counters [sum_counters [x, y], z] = sum_counters [x, sum_counters [y, z]]"
    by (simp_all add: sum_counters_def ac_simps)
  from 1 2 3 4 5 6 7 8 show ?thesis by blast
qed

lemma mset_pair_swap: "mset [a, b] = mset [b, a]"
  by simp

theorem study_merge_order_independent_witness:
  "union_all [{''B''}, {''A'', ''C''}] = union_all [{''A'', ''C''}, {''B''}]
   \<and> sum_counters [{#Num 2#}, {#Num 1, Num 2#}] = sum_counters [{#Num 1, Num 2#}, {#Num 2#}]
   \<and> get_all_study_variables ''study'' example_service example_study
        = union_all [{''STUDYID'', ''USUBJID''}, {''STUDYID'', ''AESEV''}]
   \<and> get_all_study_variable_value_counts ''--SEV'' ''study'' example_service example_study
        = sum_counters [{#}, {#Str ''MILD'', Str ''SEVERE''#}]"
proof -
  have h1: "mset [{''B''}, {''A'', ''C''}] = mset [{''A'', ''C''}, {''B''}]"
    by (rule mset_pair_swap)
  have h2: "mset [{#Num 2#}, {#Num 1, Num 2#}] = mset [{#Num 1, Num 2#}, {#Num 2#}]"
    by (rule mset_pair_swap)
  have h3: "mset [{''STUDYID'', ''USUBJID''}, {''STUDYID'', ''AESEV''}]
              = mset (map (\<lambda>d. get_dataset_variables ''study'' d example_service) example_study)"
    unfolding example_dataset_variables by (rule mset_pair_swap)
  have h4: "mset [{#}, {#Str ''MILD'', Str ''SEVERE''#}]
              = mset (map (\<lambda>d. get_dataset_variable_value_count ''--SEV'' ''study'' example_study d
                                  example_service)
                        (datasets_with_unique_domains example_study))"
    unfolding example_value_counts by (rule mset_pair_swap)
  note w = study_merge_order_independent[OF h1 h2 h3 h4]
  show ?thesis
    using w[THEN conjunct1] w[THEN conjunct2, THEN conjunct1]
      w[THEN conjunct2, THEN conjunct2, THEN conjunct1]
      w[THEN conjunct2, THEN conjunct2, THEN conjunct2, THEN conjunct1]
    by - (intro conjI, assumption+)
qed

text \<open>
  Claim C2. The claim asks for the total number of occurrences of each value. The code
  counts the values of \<open>unique()\<close>, so each value counts once per domain: in the example
  study the severity MILD occurs twice in the only dataset that has the variable, and the
  operation returns the count 1 for it.
\<close>

theorem variable_value_count_once_per_domain:
  "fst (variable_value_count example_operations_cache_key example_service
          (\<lambda>key. None :: unit cached option) example_count_params)
     = CountsValue {#Str ''MILD'', Str ''SEVERE''#}
   \<and> count {#Str ''MILD'', Str ''SEVERE''#} (Str ''MILD'') = 1
   \<and> count (mset (map (\<lambda>r. nth_cell r 1) (rows example_ae))) (Str ''MILD'') = 2"
proof -
  have "get_all_study_variable_value_counts ''--SEV'' ''study'' example_service example_study
          = {#Str ''MILD'', Str ''SEVERE''#}"
    unfolding get_all_study_variable_value_counts_def example_value_counts
    by (simp add: sum_counters_def)
  then have "fst (variable_value_count example_operations_cache_key example_service
          (\<lambda>key. None :: unit cached option) example_count_params)
     = CountsValue {#Str ''MILD'', Str ''SEVERE''#}"
    by (simp add: variable_value_count_def example_count_params_def example_service_def Let_def)
  moreover have "count (mset (map (\<lambda>r. nth_cell r 1) (rows example_ae))) (Str ''MILD'') = 2"
    by (simp add: example_ae_def nth_cell_def)
  ultimately show ?thesis by simp
qed

section \<open>Properties of the date operations\<close>








lemma map_filter_id_set: "set (List.map_filter id data) = {t. Some t \<in> set data}"
  by (induction data) (auto simp: List.map_filter_simps split: option.splits)

lemma map_filter_id_empty: "List.map_filter id data = [] \<longleftrightarrow> (\<forall>d \<in> set data. d = None)"
  by (induction data) (auto simp: List.map_filter_simps split: option.splits)

lemma series_min_value:
  "series_min data = (if (\<forall>d \<in> set data. d = None) then None else Some (Min {t. Some t \<in> set data}))"
proof (cases "List.map_filter id data")
  case Nil
  then show ?thesis using map_filter_id_empty[of data] by (simp add: series_min_def)
next
  case (Cons t ts)
  then have "\<not> (\<forall>d \<in> set data. d = None)" using map_filter_id_empty[of data] by simp
  moreover have "fold min ts t = Min {t. Some t \<in> set data}"
    using Min.set_eq_fold[of t ts] map_filter_id_set[of data] Cons by simp
  ultimately show ?thesis using Cons by (simp add: series_min_def)
qed

lemma series_max_value:
  "series_max data = (if (\<forall>d \<in> set data. d = None) then None else Some (Max {t. Some t \<in> set data}))"
proof (cases "List.map_filter id data")
  case Nil
  then show ?thesis using map_filter_id_empty[of data] by (simp add: series_max_def)
next
  case (Cons t ts)
  then have "\<not> (\<forall>d \<in> set data. d = None)" using map_filter_id_empty[of data] by simp
  moreover have "fold max ts t = Max {t. Some t \<in> set data}"
    using Max.set_eq_fold[of t ts] map_filter_id_set[of data] Cons by simp
  ultimately show ?thesis using Cons by (simp add: series_max_def)
qed

text \<open>
  Claim C6, as stated, fails for unparseable values: \<open>pd.to_datetime\<close> is called with its
  default \<open>errors = raise\<close>, so a column holding the text \<open>abc\<close> and a null makes
  \<open>min_date\<close> and \<open>max_date\<close> raise instead of returning the empty string.
\<close>

theorem min_date_raises_on_unparseable:
  "min_date example_to_datetime example_isoformat example_groupby
       (example_date_params [Str ''abc'', NA]) = Inl ValueError
   \<and> max_date example_to_datetime example_isoformat example_groupby
       (example_date_params [Str ''abc'', NA]) = Inl ValueError"
  by code_simp

text \<open>
  Claim C6, amended. For a dataset with empty grouping whose target column
  \<open>pd.to_datetime\<close> converts (every value is absent or parses), \<open>min_date\<close> and \<open>max_date\<close>
  return the empty string when every value is absent, and otherwise the ISO-8601
  rendering of the least, respectively the greatest, parsed timestamp.
\<close>

theorem min_max_date_ungrouped:
  assumes "grouping params = []"
    and "column_cells (dataframe params) (target params) = Inr cs"
    and "to_datetime cs = Inr data"
  shows "min_date to_datetime isoformat groupby_min params
           = Inr (Text (if (\<forall>d \<in> set data. d = None) then ''''
                        else isoformat (Min {t. Some t \<in> set data})))
       \<and> max_date to_datetime isoformat groupby_max params
           = Inr (Text (if (\<forall>d \<in> set data. d = None) then ''''
                        else isoformat (Max {t. Some t \<in> set data})))"
proof
  show "min_date to_datetime isoformat groupby_min params
           = Inr (Text (if (\<forall>d \<in> set data. d = None) then ''''
                        else isoformat (Min {t. Some t \<in> set data})))"
    unfolding min_date_def by (auto simp: assms series_min_value)
  show "max_date to_datetime isoformat groupby_max params
           = Inr (Text (if (\<forall>d \<in> set data. d = None) then ''''
                        else isoformat (Max {t. Some t \<in> set data})))"
    unfolding max_date_def by (auto simp: assms series_max_value)
qed

lemma example_date_facts:
  "grouping (example_date_params cs) = []"
  "column_cells (dataframe (example_date_params cs)) (target (example_date_params cs)) = Inr cs"
  by (simp_all add: example_date_params_def column_cells_def get_column_def column_names_def
      nth_cell_def comp_def)

lemma example_to_datetime_facts:
  "example_to_datetime [NA, Str ''''] = Inr [None, None]"
  "example_to_datetime [Str ''2022-01-12'', NA, Str ''2022-01-09'']
     = Inr [Some (19004 * 86400000000), None, Some (19001 * 86400000000)]"
  by code_simp+

theorem min_max_date_ungrouped_witness:
  "min_date example_to_datetime example_isoformat example_groupby
       (example_date_params [NA, Str '''']) = Inr (Text '''')
   \<and> max_date example_to_datetime example_isoformat example_groupby
       (example_date_params [NA, Str '''']) = Inr (Text '''')
   \<and> min_date example_to_datetime example_isoformat example_groupby
       (example_date_params [Str ''2022-01-12'', NA, Str ''2022-01-09''])
       = Inr (Text ''2022-01-09T00:00:00'')
   \<and> max_date example_to_datetime example_isoformat example_groupby
       (example_date_params [Str ''2022-01-12'', NA, Str ''2022-01-09''])
       = Inr (Text ''2022-01-12T00:00:00'')"
proof -
  note absent = min_max_date_ungrouped[
      where params = "example_date_params [NA, Str '''']" and cs = "[NA, Str '''']"
        and to_datetime = example_to_datetime and isoformat = example_isoformat
        and groupby_min = example_groupby and groupby_max = example_groupby,
      OF example_date_facts example_to_datetime_facts(1)]
  note dates = min_max_date_ungrouped[
      where params = "example_date_params [Str ''2022-01-12'', NA, Str ''2022-01-09'']"
        and cs = "[Str ''2022-01-12'', NA, Str ''2022-01-09'']"
        and to_datetime = example_to_datetime and isoformat = example_isoformat
        and groupby_min = example_groupby and groupby_max = example_groupby,
      OF example_date_facts example_to_datetime_facts(2)]
  have s: "{t. Some t \<in> set [Some (19004 * 86400000000), None, Some (19001 * 86400000000 :: int)]}
             = {19004 * 86400000000, 19001 * 86400000000}"
    by auto
  have a1: "min_date example_to_datetime example_isoformat example_groupby
       (example_date_params [NA, Str '''']) = Inr (Text '''')"
    using absent[THEN conjunct1] by simp
  have a2: "max_date example_to_datetime example_isoformat example_groupby
       (example_date_params [NA, Str '''']) = Inr (Text '''')"
    using absent[THEN conjunct2] by simp
  have d1: "min_date example_to_datetime example_isoformat example_groupby
       (example_date_params [Str ''2022-01-12'', NA, Str ''2022-01-09''])
       = Inr (Text ''2022-01-09T00:00:00'')"
    using dates[THEN conjunct1] unfolding s by (simp add: example_isoformat_def)
  have d2: "max_date example_to_datetime example_isoformat example_groupby
       (example_date_params [Str ''2022-01-12'', NA, Str ''2022-01-09''])
       = Inr (Text ''2022-01-12T00:00:00'')"
    using dates[THEN conjunct2] unfolding s by (simp add: example_isoformat_def)
  show ?thesis by (intro conjI a1 a2 d1 d2)
qed

section \<open>Properties of the relationship merge\<close>

text \<open>
  Claim C1. The claim, like the docstring of the function (ECSEQ is 100 or 101 AND ECNUM
  is 105), asks that a row survives only if it satisfies the constraint of every group.
  The code filters the dataset it was called with once per group and concatenates the
  results. With the relationship records of the docstring, the row with ECSEQ 101 and
  ECNUM 999 is returned although it fails the ECNUM group, the row with ECSEQ 555 and
  ECNUM 105 is returned although it fails the ECSEQ group, and the row that satisfies
  both groups is returned twice.
\<close>

theorem nested_filter_keeps_any_match:
  "filter_dataset_by_nested_columns_of_other_dataset plain_decimal example_ec example_relrec
       ''IDVAR'' ''IDVARVAL''
     = Inr \<lparr>columns = [(''ECSEQ'', Numeric), (''ECNUM'', Numeric), (''ECDOSE'', Numeric)],
            rows = [[Num 100, Num 105, Num 1], [Num 100, Num 105, Num 1],
                    [Num 555, Num 105, Num 3], [Num 101, Num 999, Num 2]]\<rparr>"
  by code_simp







lemma cast_parent_side:
  assumes "get_column child2 cv = get_column child cv"
  shows "map_sum id snd (cast_numeric_cols_to_same_data_type isdigit str_to_float child cv parent n)
       = map_sum id snd (cast_numeric_cols_to_same_data_type isdigit str_to_float child2 cv parent n)"
  unfolding cast_numeric_cols_to_same_data_type_def astype_float_column_def column_cells_def assms
  by (auto split: sum.splits prod.splits)

text \<open>
  Claim C10. The merge reads the parent-side join column from the first row of the name
  column and from nothing else: when that row names the column \<open>n\<close>, the numeric coercion
  is applied to the value column and to the parent column \<open>n\<close>, and the outer join is made
  on \<open>n\<close> and the value column, whatever the later rows name. Two child frames with the same
  first name and the same value column give the join the same parent frame and the same
  join columns.
\<close>

theorem merge_joins_on_first_name:
  assumes "column_cells right_dataset column_with_names = Inr (Str n # later_names)"
    and "column_cells right_dataset2 column_with_names = Inr (Str n # later_names2)"
    and "get_column right_dataset2 column_with_values = get_column right_dataset column_with_values"
  shows "merge_datasets_on_relationship_columns pd_merge isdigit str_to_float left_dataset
             right_dataset domain_name column_with_names column_with_values
           = (case cast_numeric_cols_to_same_data_type isdigit str_to_float right_dataset
                     column_with_values left_dataset n of
                Inl e \<Rightarrow> Inl e
              | Inr (right_dataset', left_dataset') \<Rightarrow>
                  pd_merge left_dataset' right_dataset' [n] [column_with_values]
                    ('''', ''.'' @ domain_name))
       \<and> merge_datasets_on_relationship_columns (\<lambda>l r left_on right_on suffixes. Inr (l, left_on, right_on))
             isdigit str_to_float left_dataset right_dataset domain_name
             column_with_names column_with_values
           = merge_datasets_on_relationship_columns (\<lambda>l r left_on right_on suffixes. Inr (l, left_on, right_on))
               isdigit str_to_float left_dataset right_dataset2 domain_name
               column_with_names column_with_values"
proof -
  have first: "merge_datasets_on_relationship_columns pd_merge isdigit str_to_float left_dataset
             right_dataset domain_name column_with_names column_with_values
           = (case cast_numeric_cols_to_same_data_type isdigit str_to_float right_dataset
                     column_with_values left_dataset n of
                Inl e \<Rightarrow> Inl e
              | Inr (right_dataset', left_dataset') \<Rightarrow>
                  pd_merge left_dataset' right_dataset' [n] [column_with_values]
                    ('''', ''.'' @ domain_name))"
    unfolding merge_datasets_on_relationship_columns_def by (simp add: assms(1))
  let ?probe = "\<lambda>l r left_on right_on suffixes.
                  (Inr (l, left_on, right_on) :: error + dataframe \<times> string list \<times> string list)"
  have p1: "merge_datasets_on_relationship_columns ?probe isdigit str_to_float left_dataset
              right_dataset domain_name column_with_names column_with_values
            = map_sum id (\<lambda>l. (l, [n], [column_with_values]))
                (map_sum id snd (cast_numeric_cols_to_same_data_type isdigit str_to_float
                   right_dataset column_with_values left_dataset n))"
    unfolding merge_datasets_on_relationship_columns_def
    by (simp add: assms(1) split: sum.splits prod.splits)
  have p2: "merge_datasets_on_relationship_columns ?probe isdigit str_to_float left_dataset
              right_dataset2 domain_name column_with_names column_with_values
            = map_sum id (\<lambda>l. (l, [n], [column_with_values]))
                (map_sum id snd (cast_numeric_cols_to_same_data_type isdigit str_to_float
                   right_dataset2 column_with_values left_dataset n))"
    unfolding merge_datasets_on_relationship_columns_def
    by (simp add: assms(2) split: sum.splits prod.splits)
  have "merge_datasets_on_relationship_columns ?probe isdigit str_to_float left_dataset
              right_dataset domain_name column_with_names column_with_values
        = merge_datasets_on_relationship_columns ?probe isdigit str_to_float left_dataset
              right_dataset2 domain_name column_with_names column_with_values"
    unfolding p1 p2 using cast_parent_side[OF assms(3)] by simp
  with first show ?thesis by (rule conjI)
qed

lemma example_relrec_facts:
  "column_cells example_relrec ''IDVAR'' = Inr (Str ''ECSEQ'' # [Str ''ECSEQ'', Str ''ECNUM''])"
  "column_cells example_relrec_one_name ''IDVAR'' = Inr (Str ''ECSEQ'' # [Str ''ECSEQ'', Str ''ECSEQ''])"
  "get_column example_relrec_one_name ''IDVARVAL'' = get_column example_relrec ''IDVARVAL''"
  by code_simp+

theorem merge_joins_on_first_name_witness:
  "merge_datasets_on_relationship_columns join_columns_of_call ascii_isdigit plain_decimal
       example_ec example_relrec ''SUPPEC'' ''IDVAR'' ''IDVARVAL''
     = Inr ([''ECSEQ''], [''IDVARVAL''])"
proof -
  have c: "cast_numeric_cols_to_same_data_type ascii_isdigit plain_decimal example_relrec
             ''IDVARVAL'' example_ec ''ECSEQ''
           = Inr (set_column example_relrec ''IDVARVAL'' Numeric [Num 100, Num 101, Num 105],
                  set_column example_ec ''ECSEQ'' Numeric [Num 100, Num 101, Num 555, Num 7])"
    by code_simp
  note w = merge_joins_on_first_name[OF example_relrec_facts, of join_columns_of_call
      ascii_isdigit plain_decimal example_ec "''SUPPEC''", THEN conjunct1]
  show ?thesis
    unfolding w c by (simp add: join_columns_of_call_def)
qed

section \<open>Properties of the dictionary validity operations\<close>

lemma index_of_None: "index_of x xs = None \<Longrightarrow> x \<notin> set xs"
  by (induction xs) (auto split: if_splits)

lemma index_of_Some: "index_of x xs = Some i \<Longrightarrow> i < length xs \<and> xs ! i = x \<and> x \<in> set xs"
  by (induction xs arbitrary: i) (auto split: if_splits)

lemma column_names_set_column:
  "column_names (set_column df name t vs)
     = (if name \<in> set (column_names df) then column_names df else column_names df @ [name])"
proof (cases "index_of name (column_names df)")
  case None
  then show ?thesis
    using index_of_None[OF None] by (simp add: set_column_def column_names_def)
next
  case (Some i)
  from index_of_Some[OF Some] have i: "i < length (column_names df)"
    and n: "column_names df ! i = name" and m: "name \<in> set (column_names df)" by simp_all
  have "map fst ((columns df)[i := (name, t)]) = (column_names df)[i := name]"
    by (simp add: column_names_def map_update)
  also have "\<dots> = column_names df"
    using n by (metis list_update_id)
  finally show ?thesis
    using Some m by (simp add: set_column_def column_names_def)
qed

lemma code_references_frame:
  assumes "frame_after (valid_meddra_code_references build uuid cache params) = Some df'"
  shows "\<exists>vs. df' = set_column (dataframe params) (uuid @ ''_codes'') Object vs"
  using assms unfolding frame_after_def valid_meddra_code_references_def Let_def
  by (auto split: if_splits prod.splits sum.splits cached.splits)

lemma term_references_frame:
  assumes "frame_after (valid_meddra_term_references build uuid cache params) = Some df'"
  shows "\<exists>vs. df' = set_column (dataframe params) (uuid @ ''_terms'') Object vs"
  using assms unfolding frame_after_def valid_meddra_term_references_def Let_def
  by (auto split: if_splits prod.splits sum.splits cached.splits)

lemma code_term_pairs_frame:
  assumes "frame_after (valid_meddra_code_term_pairs key_of build uuid cache params) = Some df'"
  shows "\<exists>vs. df' = set_column (dataframe params) (uuid @ ''_pairs'') Object vs"
  using assms unfolding frame_after_def valid_meddra_code_term_pairs_def Let_def
  by (auto split: if_splits prod.splits sum.splits cached.splits option.splits)

text \<open>
  Claim C3, as stated, fails: the synthetic column is added to the caller's data frame
  and no operation removes it. After \<open>valid_meddra_code_references\<close> returns, the example
  record has the column 7f3a_codes, which it did not have before the call.
\<close>

theorem dictionary_operation_leaves_column:
  "map_option column_names
       (frame_after (valid_meddra_code_references example_get_code_hierarchies ''7f3a''
                       example_cache example_meddra_params))
     = Some [''AESOCCD'', ''AEHLGTCD'', ''AEHLTCD'', ''AEPTCD'', ''AELLTCD'', ''AESOC'',
             ''AEHLGT'', ''AEHLT'', ''AEDECOD'', ''AELLT'', ''7f3a_codes'']
   \<and> column_names (dataframe example_meddra_params)
     = [''AESOCCD'', ''AEHLGTCD'', ''AEHLTCD'', ''AEPTCD'', ''AELLTCD'', ''AESOC'',
        ''AEHLGT'', ''AEHLT'', ''AEDECOD'', ''AELLT'']"
  by code_simp

text \<open>
  Claim C3, amended. When a dictionary-validity operation returns, the columns of the
  caller's dataset are the columns before the call followed by the synthetic column of
  the operation (the fresh identifier followed by \<open>_codes\<close>, \<open>_terms\<close> or \<open>_pairs\<close>), which
  stays in the dataset; the columns are unchanged only when a column of that name was
  there before the call.
\<close>

theorem dictionary_operations_add_column:
  "(frame_after (valid_meddra_code_references get_code_hierarchies uuid cache params) = Some df1 \<longrightarrow>
      column_names df1
        = (if uuid @ ''_codes'' \<in> set (column_names (dataframe params))
           then column_names (dataframe params)
           else column_names (dataframe params) @ [uuid @ ''_codes'']))
   \<and> (frame_after (valid_meddra_term_references get_term_hierarchies uuid cache params) = Some df2 \<longrightarrow>
      column_names df2
        = (if uuid @ ''_terms'' \<in> set (column_names (dataframe params))
           then column_names (dataframe params)
           else column_names (dataframe params) @ [uuid @ ''_terms'']))
   \<and> (frame_after (valid_meddra_code_term_pairs get_meddra_code_term_pairs_cache_key
                     get_code_term_pairs uuid cache params) = Some df3 \<longrightarrow>
      column_names df3
        = (if uuid @ ''_pairs'' \<in> set (column_names (dataframe params))
           then column_names (dataframe params)
           else column_names (dataframe params) @ [uuid @ ''_pairs'']))"
proof (intro conjI impI)
  assume "frame_after (valid_meddra_code_references get_code_hierarchies uuid cache params) = Some df1"
  from code_references_frame[OF this] obtain vs where
    "df1 = set_column (dataframe params) (uuid @ ''_codes'') Object vs" ..
  then show "column_names df1
        = (if uuid @ ''_codes'' \<in> set (column_names (dataframe params))
           then column_names (dataframe params)
           else column_names (dataframe params) @ [uuid @ ''_codes''])"
    by (simp only: column_names_set_column)
next
  assume "frame_after (valid_meddra_term_references get_term_hierarchies uuid cache params) = Some df2"
  from term_references_frame[OF this] obtain vs where
    "df2 = set_column (dataframe params) (uuid @ ''_terms'') Object vs" ..
  then show "column_names df2
        = (if uuid @ ''_terms'' \<in> set (column_names (dataframe params))
           then column_names (dataframe params)
           else column_names (dataframe params) @ [uuid @ ''_terms''])"
    by (simp only: column_names_set_column)
next
  assume "frame_after (valid_meddra_code_term_pairs get_meddra_code_term_pairs_cache_key
                     get_code_term_pairs uuid cache params) = Some df3"
  from code_term_pairs_frame[OF this] obtain vs where
    "df3 = set_column (dataframe params) (uuid @ ''_pairs'') Object vs" ..
  then show "column_names df3
        = (if uuid @ ''_pairs'' \<in> set (column_names (dataframe params))
           then column_names (dataframe params)
           else column_names (dataframe params) @ [uuid @ ''_pairs''])"
    by (simp only: column_names_set_column)
qed

lemma example_frames_after:
  "frame_after (valid_meddra_code_references example_get_code_hierarchies ''7f3a''
                  example_cache example_meddra_params)
     = Some (set_column (dataframe example_meddra_params) ''7f3a_codes'' Object
               [Str ''11/12/13/14/15''])"
  "frame_after (valid_meddra_term_references example_get_term_hierarchies ''7f3a''
                  example_cache example_meddra_params)
     = Some (set_column (dataframe example_meddra_params) ''7f3a_terms'' Object
               [Str ''A/B/C/D/E''])"
  "frame_after (valid_meddra_code_term_pairs example_pairs_cache_key example_get_code_term_pairs
                  ''7f3a'' example_cache example_meddra_params)
     = Some (set_column (dataframe example_meddra_params) ''7f3a_pairs'' Object
               [Tuple (Str ''11'') (Str ''A'')])"
  by code_simp+

lemma example_meddra_columns:
  "column_names (dataframe example_meddra_params)
     = [''AESOCCD'', ''AEHLGTCD'', ''AEHLTCD'', ''AEPTCD'', ''AELLTCD'', ''AESOC'',
        ''AEHLGT'', ''AEHLT'', ''AEDECOD'', ''AELLT'']"
  by code_simp

theorem dictionary_operations_add_column_witness:
  "column_names (set_column (dataframe example_meddra_params) ''7f3a_codes'' Object
                   [Str ''11/12/13/14/15''])
     = column_names (dataframe example_meddra_params) @ [''7f3a_codes'']
   \<and> column_names (set_column (dataframe example_meddra_params) ''7f3a_terms'' Object
                   [Str ''A/B/C/D/E''])
     = column_names (dataframe example_meddra_params) @ [''7f3a_terms'']
   \<and> column_names (set_column (dataframe example_meddra_params) ''7f3a_pairs'' Object
                   [Tuple (Str ''11'') (Str ''A'')])
     = column_names (dataframe example_meddra_params) @ [''7f3a_pairs'']"
proof -
  note w = dictionary_operations_add_column[
      where get_code_hierarchies = example_get_code_hierarchies
        and get_term_hierarchies = example_get_term_hierarchies
        and get_meddra_code_term_pairs_cache_key = example_pairs_cache_key
        and get_code_term_pairs = example_get_code_term_pairs
        and uuid = "''7f3a''" and cache = example_cache and params = example_meddra_params]
  have n1: "''7f3a'' @ ''_codes'' \<notin> set (column_names (dataframe example_meddra_params))"
    and n2: "''7f3a'' @ ''_terms'' \<notin> set (column_names (dataframe example_meddra_params))"
    and n3: "''7f3a'' @ ''_pairs'' \<notin> set (column_names (dataframe example_meddra_params))"
    unfolding example_meddra_columns by simp_all
  have a: "column_names (set_column (dataframe example_meddra_params) ''7f3a_codes'' Object
                   [Str ''11/12/13/14/15''])
     = column_names (dataframe example_meddra_params) @ [''7f3a_codes'']"
    using w[THEN conjunct1, rule_format, OF example_frames_after(1)] n1 by simp
  have b: "column_names (set_column (dataframe example_meddra_params) ''7f3a_terms'' Object
                   [Str ''A/B/C/D/E''])
     = column_names (dataframe example_meddra_params) @ [''7f3a_terms'']"
    using w[THEN conjunct2, THEN conjunct1, rule_format, OF example_frames_after(2)] n2 by simp
  have c: "column_names (set_column (dataframe example_meddra_params) ''7f3a_pairs'' Object
                   [Tuple (Str ''11'') (Str ''A'')])
     = column_names (dataframe example_meddra_params) @ [''7f3a_pairs'']"
    using w[THEN conjunct2, THEN conjunct2, rule_format, OF example_frames_after(3)] n3 by simp
  show ?thesis by (intro conjI a b c)
qed

text \<open>
  An index that is not empty is built once: when the first call has stored it, a later
  call for the same dictionary path finds it and does not call the builder.
\<close>

lemma cached_or_built_found:
  assumes "truthy (cache cache_key)"
  shows "fst (snd (cached_or_built cache cache_key path build)) = False"
  using assms unfolding cached_or_built_def
  by (cases "cache cache_key") (auto split: bool.splits)

lemma cached_or_built_stores:
  assumes "cached_or_built cache cache_key path build = (cache', built, Inr v)"
  shows "truthy (cache cache_key) \<or> cache' cache_key = Some v"
  using assms unfolding cached_or_built_def
  by (auto split: bool.splits option.splits sum.splits if_splits)

lemma cached_or_built_keeps_found:
  assumes "truthy (cache cache_key)"
  shows "fst (cached_or_built cache cache_key path build) = cache"
  using assms unfolding cached_or_built_def
  by (cases "cache cache_key") (auto split: bool.splits)

lemma nonempty_index_reused:
  assumes "cached_or_built cache cache_key path build = (cache', built, Inr v)"
    and "truthy (Some v)"
  shows "fst (snd (cached_or_built cache' cache_key path build')) = False"
proof (rule cached_or_built_found)
  show "truthy (cache' cache_key)"
  proof (cases "truthy (cache cache_key)")
    case True
    from True have "fst (cached_or_built cache cache_key path build) = cache"
      by (rule cached_or_built_keeps_found)
    with assms(1) True show ?thesis by simp
  next
    case False
    with cached_or_built_stores[OF assms(1)] assms(2) show ?thesis by simp
  qed
qed

text \<open>
  Claim C9. The claim asks that an index, once stored by the first call, is reused by
  every later call. The operations test what the cache returns for truth, not for
  presence, so an index that is empty is taken for a missing one. For a dictionary
  without terms the first call builds the empty set of code hierarchies and stores it,
  and the second call on the same record and path, which finds the stored set, builds it
  again.
\<close>

theorem empty_index_rebuilt:
  "fst (snd (valid_meddra_code_references get_code_hierarchies_of_empty_dictionary ''7f3a''
               example_cache example_meddra_params)) = True
   \<and> fst (valid_meddra_code_references get_code_hierarchies_of_empty_dictionary ''7f3a''
               example_cache example_meddra_params) ''meddra_valid_code_hierarchies_meddra''
       = Some (HierarchiesValue {})
   \<and> frame_after (valid_meddra_code_references get_code_hierarchies_of_empty_dictionary ''7f3a''
               example_cache example_meddra_params)
       = Some (dataframe example_meddra_params_after_codes)
   \<and> fst (snd (valid_meddra_code_references get_code_hierarchies_of_empty_dictionary ''9c1d''
               (fst (valid_meddra_code_references get_code_hierarchies_of_empty_dictionary ''7f3a''
                       example_cache example_meddra_params))
               example_meddra_params_after_codes)) = True"
  by code_simp

end
